theory Spec2Isabelle
  imports Complex_Main "HOL-Library.Multiset" "HOL-Library.Char_ord"
    "HOL-Library.List_Lexorder" "HOL-Library.Product_Lexorder"
begin

section \<open>Core types (core/types.ts)\<close>

text \<open>
  JavaScript numbers that hold millisecond timestamps and counters are modelled as
  \<^typ>\<open>int\<close>. Payload, meta and log data are opaque to the queue; they are carried as
  their JSON text, so \<open>JSON.parse (JSON.stringify v)\<close> is the identity of the model.
  The field \<open>id\<close> of \<open>Job\<close> is called \<open>job_id\<close> (\<open>id\<close> is the identity function of
  HOL); the fields of \<open>JobLog\<close> carry the prefix \<open>log_\<close> and those of
  \<open>EnqueueOptions\<close> the prefix \<open>opt_\<close>, since records cannot share field names. A
  \<open>limit\<close> and a \<open>concurrency\<close> are counts, of type \<^typ>\<open>nat\<close>.
\<close>

datatype JobStatus = pending | processing | completed | failed | expired

record Job =
  job_id :: string
  queue :: string
  payload :: string
  attempts :: int
  maxAttempts :: int
  visibleAt :: int
  lockedUntil :: int
  createdAt :: int
  updatedAt :: int
  status :: JobStatus
  meta :: "string option"

record JobLog =
  log_id :: string
  log_jobId :: string
  log_queue :: string
  log_event :: string
  log_data :: "string option"
  log_createdAt :: int

record EnqueueOptions =
  opt_jobId :: "string option"
  opt_delayMs :: "int option"
  opt_maxAttempts :: "int option"
  opt_overwrite :: "bool option"
  opt_meta :: "string option"

record DequeueOptions =
  limit :: "nat option"
  visibilityTimeoutMs :: "int option"

record NackOptions =
  requeue :: "bool option"
  delayMs :: "int option"

record AckOptions =
  deleteAfterAck :: "bool option"

text \<open>Errors a backend raises that are decided by the store's contents and the
  arguments: a duplicate key on insert, and the \<open>TypeError\<close> of the Redis client for a
  field value that is \<open>null\<close>.\<close>

datatype error = DuplicateKey | TypeError

section \<open>Utilities (core/utils.ts)\<close>

text \<open>
  \<open>clamp v min max = Math.max(min, Math.min(max, v))\<close> and
  \<open>defaultBackoff attempts = clamp(1000 * Math.pow(2, attempts - 1), 0, 60_000)\<close>.
  The attempt count is an integer; the delay is a real number, since a count below one
  gives a fractional power of two.
\<close>

definition clamp :: "real \<Rightarrow> real \<Rightarrow> real \<Rightarrow> real" where
  "clamp v mn mx = max mn (min mx v)"

definition defaultBackoff :: "int \<Rightarrow> real" where
  "defaultBackoff n = (let base = 1000 in clamp (base * (2 powi (n - 1))) 0 60000)"

section \<open>Option defaults\<close>

text \<open>
  \<open>opts?.limit ?? 1\<close>, \<open>opts?.visibilityTimeoutMs ?? 30_000\<close>, the truthiness test
  \<open>opts?.deleteAfterAck\<close>, the test \<open>opts?.requeue !== false\<close> and
  \<open>opts?.delayMs ? currentTime + opts.delayMs : currentTime\<close> (a delay of 0 is falsy).
\<close>

definition limit_of :: "DequeueOptions option \<Rightarrow> nat" where
  "limit_of opts = (case opts of None \<Rightarrow> 1 | Some o1 \<Rightarrow> (case limit o1 of None \<Rightarrow> 1 | Some l \<Rightarrow> l))"

definition visibilityTimeoutMs_of :: "DequeueOptions option \<Rightarrow> int" where
  "visibilityTimeoutMs_of opts =
     (case opts of None \<Rightarrow> 30000 | Some o1 \<Rightarrow> (case visibilityTimeoutMs o1 of None \<Rightarrow> 30000 | Some v \<Rightarrow> v))"

definition deleteAfterAck_of :: "AckOptions option \<Rightarrow> bool" where
  "deleteAfterAck_of opts = (case opts of None \<Rightarrow> False | Some o1 \<Rightarrow> (deleteAfterAck o1 = Some True))"

definition requeue_of :: "NackOptions option \<Rightarrow> bool" where
  "requeue_of opts = (case opts of None \<Rightarrow> True | Some o1 \<Rightarrow> (requeue o1 \<noteq> Some False))"

definition nack_visibleAt :: "NackOptions option \<Rightarrow> int \<Rightarrow> int" where
  "nack_visibleAt opts currentTime =
     (case opts of None \<Rightarrow> currentTime
      | Some o1 \<Rightarrow> (case delayMs o1 of None \<Rightarrow> currentTime
          | Some d \<Rightarrow> if d \<noteq> 0 then currentTime + d else currentTime))"

section \<open>The MongoDB adapter (adapters/mongodb.ts)\<close>

text \<open>
  A collection is the list of its documents in natural order. \<open>JobDocument\<close> has the
  fields of \<open>Job\<close> with \<open>_id\<close> for \<open>id\<close>, so the model uses \<open>Job\<close> for both, and
  \<open>JobLog\<close> for \<open>JobLogDocument\<close>.
\<close>

record mongo_db =
  jobsCollection :: "Job list"
  logsCollection :: "JobLog list"

text \<open>\<open>findOne(filter)\<close>: the first document that matches.\<close>

definition findOne :: "('a \<Rightarrow> bool) \<Rightarrow> 'a list \<Rightarrow> 'a option" where
  "findOne P xs = List.find P xs"

text \<open>\<open>findOne(filter, {sort: {createdAt: 1}})\<close>: the first match in ascending order of
  the key (the sort is stable: documents with equal keys keep their natural order).\<close>

definition findOne_sort :: "('a \<Rightarrow> bool) \<Rightarrow> ('a \<Rightarrow> int) \<Rightarrow> 'a list \<Rightarrow> 'a option" where
  "findOne_sort P k xs = (case sort_key k (filter P xs) of [] \<Rightarrow> None | c # _ \<Rightarrow> Some c)"

text \<open>\<open>updateOne(filter, {$set: ...})\<close>: the first match is updated.\<close>

fun updateOne :: "('a \<Rightarrow> bool) \<Rightarrow> ('a \<Rightarrow> 'a) \<Rightarrow> 'a list \<Rightarrow> 'a list" where
  "updateOne P f [] = []"
| "updateOne P f (x # xs) = (if P x then f x # xs else x # updateOne P f xs)"

text \<open>\<open>findOneAndUpdate(filter, update, {returnDocument: "after"})\<close>.\<close>

definition findOneAndUpdate :: "('a \<Rightarrow> bool) \<Rightarrow> ('a \<Rightarrow> 'a) \<Rightarrow> 'a list \<Rightarrow> 'a option \<times> 'a list" where
  "findOneAndUpdate P f xs =
     (case findOne P xs of None \<Rightarrow> (None, xs) | Some d \<Rightarrow> (Some (f d), updateOne P f xs))"

text \<open>\<open>deleteOne(filter)\<close>: the first match is removed.\<close>

fun deleteOne :: "('a \<Rightarrow> bool) \<Rightarrow> 'a list \<Rightarrow> 'a list" where
  "deleteOne P [] = []"
| "deleteOne P (x # xs) = (if P x then xs else x # deleteOne P xs)"

text \<open>\<open>insertOne(doc)\<close>: a second document with the same \<open>_id\<close> is a duplicate-key error.\<close>

definition insertOne :: "('a \<Rightarrow> string) \<Rightarrow> 'a \<Rightarrow> 'a list \<Rightarrow> error + 'a list" where
  "insertOne key d xs = (if key d \<in> set (map key xs) then Inl DuplicateKey else Inr (xs @ [d]))"

text \<open>
  \<open>enqueue\<close>. \<open>gen\<close> is the value of \<open>genId()\<close>; \<open>t1\<close> and \<open>t2\<close> are the two readings of
  \<open>now()\<close> (for \<open>visibleAt\<close>, then for \<open>currentTime\<close>).
\<close>

definition new_job :: "string \<Rightarrow> int \<Rightarrow> int \<Rightarrow> string \<Rightarrow> string \<Rightarrow> EnqueueOptions option \<Rightarrow> Job" where
  "new_job gen t1 t2 q pl opts =
     \<lparr> job_id = (case opts of None \<Rightarrow> gen
                 | Some o1 \<Rightarrow> (case opt_jobId o1 of None \<Rightarrow> gen | Some j \<Rightarrow> if j \<noteq> [] then j else gen)),
       queue = q,
       payload = pl,
       attempts = 0,
       maxAttempts = (case opts of None \<Rightarrow> 3
                 | Some o1 \<Rightarrow> (case opt_maxAttempts o1 of None \<Rightarrow> 3 | Some m \<Rightarrow> m)),
       visibleAt = (case opts of None \<Rightarrow> t1
                 | Some o1 \<Rightarrow> (case opt_delayMs o1 of None \<Rightarrow> t1 | Some d \<Rightarrow> if d \<noteq> 0 then t1 + d else t1)),
       lockedUntil = 0,
       createdAt = t2,
       updatedAt = t2,
       status = pending,
       meta = (case opts of None \<Rightarrow> None | Some o1 \<Rightarrow> opt_meta o1) \<rparr>"

definition mongodb_enqueue ::
  "string \<Rightarrow> int \<Rightarrow> int \<Rightarrow> string \<Rightarrow> string \<Rightarrow> EnqueueOptions option \<Rightarrow> mongo_db \<Rightarrow> error + (Job \<times> mongo_db)" where
  "mongodb_enqueue gen t1 t2 q pl opts db =
     (let jobDoc = new_job gen t1 t2 q pl opts in
      case insertOne job_id jobDoc (jobsCollection db) of
        Inl e \<Rightarrow> Inl e
      | Inr coll \<Rightarrow> Inr (jobDoc, db\<lparr>jobsCollection := coll\<rparr>))"

text \<open>
  \<open>dequeue\<close>: the loop \<open>for (let i = 0; i < limit; i++)\<close>. Each round looks for the
  oldest candidate; \<open>break\<close> when there is none; a candidate without attempts left is
  marked failed and the round is spent (\<open>continue\<close>); otherwise the job is claimed by
  \<open>findOneAndUpdate\<close>, and a claim that matches nothing spends the round too.
\<close>

definition mongodb_candidate :: "string \<Rightarrow> int \<Rightarrow> Job \<Rightarrow> bool" where
  "mongodb_candidate q currentTime d =
     (queue d = q \<and> status d = pending \<and> visibleAt d \<le> currentTime \<and> lockedUntil d < currentTime)"

definition mark_failed :: "int \<Rightarrow> Job \<Rightarrow> Job" where
  "mark_failed currentTime d = d\<lparr>status := failed, updatedAt := currentTime\<rparr>"

definition claim_job :: "int \<Rightarrow> int \<Rightarrow> Job \<Rightarrow> Job" where
  "claim_job currentTime newLockedUntil d =
     d\<lparr>status := processing, lockedUntil := newLockedUntil, updatedAt := currentTime,
       attempts := attempts d + 1\<rparr>"

fun mongodb_dequeue_loop :: "nat \<Rightarrow> string \<Rightarrow> int \<Rightarrow> int \<Rightarrow> Job list \<Rightarrow> Job list \<Rightarrow> Job list \<times> Job list" where
  "mongodb_dequeue_loop 0 q currentTime newLockedUntil coll acc = (acc, coll)"
| "mongodb_dequeue_loop (Suc n) q currentTime newLockedUntil coll acc =
     (case findOne_sort (mongodb_candidate q currentTime) createdAt coll of
        None \<Rightarrow> (acc, coll)
      | Some candidate \<Rightarrow>
          if attempts candidate \<ge> maxAttempts candidate then
            mongodb_dequeue_loop n q currentTime newLockedUntil
              (updateOne (\<lambda>d. job_id d = job_id candidate) (mark_failed currentTime) coll) acc
          else
            (case findOneAndUpdate
                    (\<lambda>d. job_id d = job_id candidate \<and> status d = pending \<and> lockedUntil d < currentTime)
                    (claim_job currentTime newLockedUntil) coll of
               (None, coll') \<Rightarrow> mongodb_dequeue_loop n q currentTime newLockedUntil coll' acc
             | (Some job, coll') \<Rightarrow>
                 mongodb_dequeue_loop n q currentTime newLockedUntil coll' (acc @ [job])))"

definition mongodb_dequeue :: "int \<Rightarrow> string \<Rightarrow> DequeueOptions option \<Rightarrow> mongo_db \<Rightarrow> Job list \<times> mongo_db" where
  "mongodb_dequeue currentTime q opts db =
     (let newLockedUntil = currentTime + visibilityTimeoutMs_of opts;
          (js, coll) = mongodb_dequeue_loop (limit_of opts) q currentTime newLockedUntil
                         (jobsCollection db) []
      in (js, db\<lparr>jobsCollection := coll\<rparr>))"

definition mongodb_ack :: "int \<Rightarrow> string \<Rightarrow> AckOptions option \<Rightarrow> mongo_db \<Rightarrow> mongo_db" where
  "mongodb_ack currentTime jobId opts db =
     (if deleteAfterAck_of opts then
        db\<lparr>jobsCollection := deleteOne (\<lambda>d. job_id d = jobId) (jobsCollection db)\<rparr>
      else
        db\<lparr>jobsCollection := updateOne (\<lambda>d. job_id d = jobId)
              (\<lambda>d. d\<lparr>status := completed, updatedAt := currentTime\<rparr>) (jobsCollection db)\<rparr>)"

definition requeue_job :: "int \<Rightarrow> int \<Rightarrow> Job \<Rightarrow> Job" where
  "requeue_job currentTime vis d =
     d\<lparr>status := pending, lockedUntil := 0, visibleAt := vis, updatedAt := currentTime\<rparr>"

definition mongodb_nack :: "int \<Rightarrow> string \<Rightarrow> NackOptions option \<Rightarrow> mongo_db \<Rightarrow> mongo_db" where
  "mongodb_nack currentTime jobId opts db =
     (if requeue_of opts then
        db\<lparr>jobsCollection := updateOne (\<lambda>d. job_id d = jobId)
              (requeue_job currentTime (nack_visibleAt opts currentTime)) (jobsCollection db)\<rparr>
      else
        db\<lparr>jobsCollection := updateOne (\<lambda>d. job_id d = jobId)
              (mark_failed currentTime) (jobsCollection db)\<rparr>)"

definition mongodb_getJob :: "string \<Rightarrow> mongo_db \<Rightarrow> Job option" where
  "mongodb_getJob jobId db = findOne (\<lambda>d. job_id d = jobId) (jobsCollection db)"

text \<open>\<open>logEvent\<close>: \<open>gen\<close> is the value of \<open>genId("log")\<close>, \<open>t\<close> that of \<open>now()\<close>.\<close>

definition mongodb_logEvent ::
  "string \<Rightarrow> int \<Rightarrow> string \<Rightarrow> string \<Rightarrow> string option \<Rightarrow> mongo_db \<Rightarrow> error + mongo_db" where
  "mongodb_logEvent gen t jobId event data db =
     (case findOne (\<lambda>d. job_id d = jobId) (jobsCollection db) of
        None \<Rightarrow> Inr db
      | Some job \<Rightarrow>
          (case insertOne log_id
                  \<lparr> log_id = gen, log_jobId = jobId, log_queue = queue job, log_event = event,
                    log_data = data, log_createdAt = t \<rparr> (logsCollection db) of
             Inl e \<Rightarrow> Inl e
           | Inr logs \<Rightarrow> Inr (db\<lparr>logsCollection := logs\<rparr>)))"

text \<open>\<open>getLogs\<close>: \<open>find({jobId}).sort({createdAt: -1})\<close>.\<close>

definition mongodb_getLogs :: "string \<Rightarrow> mongo_db \<Rightarrow> JobLog list" where
  "mongodb_getLogs jobId db =
     sort_key (\<lambda>l. - log_createdAt l) (filter (\<lambda>l. log_jobId l = jobId) (logsCollection db))"

section \<open>The Drizzle adapter (adapters/drizzle)\<close>

text \<open>
  A table is the list of its rows in storage order. \<open>select ... where\<close> keeps the rows
  that match, \<open>orderBy\<close> sorts them (stably), \<open>limit\<close> takes a prefix;
  \<open>update ... where\<close> changes every row that matches and \<open>delete ... where\<close> removes
  every such row. \<open>id\<close> is the primary key of both tables. The select
  \<open>where inArray(jobs.id, jobIds)\<close> that ends \<open>dequeue\<close> has no \<open>orderBy\<close>: SQLite answers
  it from the index of the primary key, so its rows come in ascending order of \<open>id\<close>.
\<close>

record drizzle_db =
  jobs :: "Job list"
  jobLogs :: "JobLog list"

definition update_where :: "('a \<Rightarrow> bool) \<Rightarrow> ('a \<Rightarrow> 'a) \<Rightarrow> 'a list \<Rightarrow> 'a list" where
  "update_where P f rows = map (\<lambda>r. if P r then f r else r) rows"

definition delete_where :: "('a \<Rightarrow> bool) \<Rightarrow> 'a list \<Rightarrow> 'a list" where
  "delete_where P rows = filter (\<lambda>r. \<not> P r) rows"

definition insert_values :: "('a \<Rightarrow> string) \<Rightarrow> 'a \<Rightarrow> 'a list \<Rightarrow> error + 'a list" where
  "insert_values key r rows = (if key r \<in> set (map key rows) then Inl DuplicateKey else Inr (rows @ [r]))"

definition drizzle_enqueue ::
  "string \<Rightarrow> int \<Rightarrow> int \<Rightarrow> string \<Rightarrow> string \<Rightarrow> EnqueueOptions option \<Rightarrow> drizzle_db \<Rightarrow> error + (Job \<times> drizzle_db)" where
  "drizzle_enqueue gen t1 t2 q pl opts db =
     (let jobData = new_job gen t1 t2 q pl opts in
      case insert_values job_id jobData (jobs db) of
        Inl e \<Rightarrow> Inl e
      | Inr rows \<Rightarrow> Inr (jobData, db\<lparr>jobs := rows\<rparr>))"

text \<open>The \<open>where\<close> clause of \<open>dequeue\<close>: both time comparisons are \<open>lt\<close>.\<close>

definition drizzle_available :: "string \<Rightarrow> int \<Rightarrow> Job \<Rightarrow> bool" where
  "drizzle_available q currentTime r =
     (queue r = q \<and> status r = pending \<and> visibleAt r < currentTime \<and> lockedUntil r < currentTime
      \<and> attempts r < maxAttempts r)"

definition drizzle_dequeue :: "int \<Rightarrow> string \<Rightarrow> DequeueOptions option \<Rightarrow> drizzle_db \<Rightarrow> Job list \<times> drizzle_db" where
  "drizzle_dequeue currentTime q opts db =
     (let availableJobs = take (limit_of opts)
            (sort_key createdAt (filter (drizzle_available q currentTime) (jobs db)))
      in if availableJobs = [] then ([], db)
         else
           let jobIds = map job_id availableJobs;
               newLockedUntil = currentTime + visibilityTimeoutMs_of opts;
               rows = update_where (\<lambda>r. job_id r \<in> set jobIds)
                        (claim_job currentTime newLockedUntil) (jobs db)
           in (sort_key job_id (filter (\<lambda>r. job_id r \<in> set jobIds) rows), db\<lparr>jobs := rows\<rparr>))"

definition drizzle_ack :: "int \<Rightarrow> string \<Rightarrow> AckOptions option \<Rightarrow> drizzle_db \<Rightarrow> drizzle_db" where
  "drizzle_ack currentTime jobId opts db =
     (if deleteAfterAck_of opts then
        db\<lparr>jobs := delete_where (\<lambda>r. job_id r = jobId) (jobs db)\<rparr>
      else
        db\<lparr>jobs := update_where (\<lambda>r. job_id r = jobId)
              (\<lambda>r. r\<lparr>status := completed, updatedAt := currentTime\<rparr>) (jobs db)\<rparr>)"

definition drizzle_nack :: "int \<Rightarrow> string \<Rightarrow> NackOptions option \<Rightarrow> drizzle_db \<Rightarrow> drizzle_db" where
  "drizzle_nack currentTime jobId opts db =
     (if requeue_of opts then
        db\<lparr>jobs := update_where (\<lambda>r. job_id r = jobId)
              (requeue_job currentTime (nack_visibleAt opts currentTime)) (jobs db)\<rparr>
      else
        db\<lparr>jobs := update_where (\<lambda>r. job_id r = jobId) (mark_failed currentTime) (jobs db)\<rparr>)"

text \<open>\<open>getJob\<close>: \<open>select ... where id = jobId limit 1\<close>, \<open>null\<close> when no row comes back.\<close>

definition drizzle_getJob :: "string \<Rightarrow> drizzle_db \<Rightarrow> Job option" where
  "drizzle_getJob jobId db =
     (case take 1 (filter (\<lambda>r. job_id r = jobId) (jobs db)) of [] \<Rightarrow> None | row # _ \<Rightarrow> Some row)"

definition drizzle_logEvent ::
  "string \<Rightarrow> int \<Rightarrow> string \<Rightarrow> string \<Rightarrow> string option \<Rightarrow> drizzle_db \<Rightarrow> error + drizzle_db" where
  "drizzle_logEvent gen t jobId event data db =
     (case take 1 (filter (\<lambda>r. job_id r = jobId) (jobs db)) of
        [] \<Rightarrow> Inr db
      | job # _ \<Rightarrow>
          (case insert_values log_id
                  \<lparr> log_id = gen, log_jobId = jobId, log_queue = queue job, log_event = event,
                    log_data = data, log_createdAt = t \<rparr> (jobLogs db) of
             Inl e \<Rightarrow> Inl e
           | Inr logs \<Rightarrow> Inr (db\<lparr>jobLogs := logs\<rparr>)))"

text \<open>\<open>getLogs\<close>: \<open>where jobId = jobId orderBy desc(createdAt)\<close>.\<close>

definition drizzle_getLogs :: "string \<Rightarrow> drizzle_db \<Rightarrow> JobLog list" where
  "drizzle_getLogs jobId db =
     sort_key (\<lambda>l. - log_createdAt l) (filter (\<lambda>l. log_jobId l = jobId) (jobLogs db))"

section \<open>The Redis adapter (adapters/redis)\<close>

text \<open>
  The store holds, per job id, the hash \<open>job:<id>\<close>; per queue, the sorted sets
  \<open>queue:pending:<queue>\<close> and \<open>queue:processing:<queue>\<close>; per job id, the list
  \<open>job:logs:<id>\<close>.

  \<open>hSet\<close> on a key that does not exist creates the hash with the fields written. The
  adapter writes all fields in \<open>enqueue\<close>, and \<open>status\<close> with \<open>updatedAt\<close> alone in
  \<open>ack\<close>, which does not look the job up first; every other write follows the test
  \<open>if (!jobData.id)\<close>. So a hash is either complete (\<open>JobHash\<close>) or holds just a status
  and \<open>updatedAt\<close> (\<open>StatusHash\<close>), and \<open>hGetAll\<close> of the second kind has no \<open>id\<close>.

  A sorted set is the list of its (member, score) pairs, one pair per member;
  \<open>zRangeByScore\<close> returns the members in the order of score, then of member.
\<close>

datatype redis_hash = JobHash Job | StatusHash JobStatus int

record redis_db =
  hashes :: "string \<Rightarrow> redis_hash option"
  pendingSet :: "string \<Rightarrow> (string \<times> int) list"
  processingSet :: "string \<Rightarrow> (string \<times> int) list"
  logLists :: "string \<Rightarrow> JobLog list"

definition zRem :: "string \<Rightarrow> (string \<times> int) list \<Rightarrow> (string \<times> int) list" where
  "zRem mem z = filter (\<lambda>(m, s). m \<noteq> mem) z"

definition zAdd :: "int \<Rightarrow> string \<Rightarrow> (string \<times> int) list \<Rightarrow> (string \<times> int) list" where
  "zAdd sc mem z = (mem, sc) # zRem mem z"

definition zRangeByScore :: "(string \<times> int) list \<Rightarrow> int \<Rightarrow> int \<Rightarrow> nat \<Rightarrow> string list" where
  "zRangeByScore z lo hi cnt =
     map fst (take cnt (sort_key (\<lambda>(m, s). (s, m)) (filter (\<lambda>(m, s). lo \<le> s \<and> s \<le> hi) z)))"

text \<open>\<open>hGetAll\<close> followed by the test of \<open>jobData.id\<close>: the complete hash, when its
  \<open>id\<close> is a non-empty string.\<close>

definition hGetAll_job :: "redis_db \<Rightarrow> string \<Rightarrow> Job option" where
  "hGetAll_job db jobId =
     (case hashes db jobId of
        Some (JobHash j) \<Rightarrow> if job_id j \<noteq> [] then Some j else None
      | _ \<Rightarrow> None)"

text \<open>\<open>hSet(key, {status, updatedAt})\<close>, whatever the key holds.\<close>

definition hSet_status :: "string \<Rightarrow> JobStatus \<Rightarrow> int \<Rightarrow> redis_db \<Rightarrow> redis_db" where
  "hSet_status jobId st t db =
     db\<lparr>hashes := (hashes db)(jobId :=
        (case hashes db jobId of
           Some (JobHash j) \<Rightarrow> Some (JobHash (j\<lparr>status := st, updatedAt := t\<rparr>))
         | _ \<Rightarrow> Some (StatusHash st t)))\<rparr>"

text \<open>
  \<open>enqueue\<close>: the hash is written with \<open>meta: opts?.meta ? JSON.stringify(opts.meta) : null\<close>.
  The client refuses a \<open>null\<close> value with a \<open>TypeError\<close> before it sends anything, so an
  enqueue without \<open>meta\<close> throws and leaves the store as it was.
\<close>

definition redis_enqueue ::
  "string \<Rightarrow> int \<Rightarrow> int \<Rightarrow> string \<Rightarrow> string \<Rightarrow> EnqueueOptions option \<Rightarrow> redis_db \<Rightarrow> error + (Job \<times> redis_db)" where
  "redis_enqueue gen t1 t2 q pl opts db =
     (let jobData = new_job gen t1 t2 q pl opts;
          jobId = job_id jobData
      in if meta jobData = None then Inl TypeError
         else Inr (jobData,
          db\<lparr>hashes := (hashes db)(jobId \<mapsto> JobHash jobData),
             pendingSet := (pendingSet db)(q := zAdd (visibleAt jobData) jobId (pendingSet db q))\<rparr>))"

text \<open>
  \<open>dequeue\<close>: the loop over the candidate ids. It stops when \<open>limit\<close> jobs are claimed,
  skips an id whose hash has no \<open>id\<close>, skips a job without attempts left or with
  \<open>lockedUntil >= currentTime\<close>, and claims the others. The \<open>status\<close> field is not read.
\<close>

fun redis_dequeue_loop ::
  "string list \<Rightarrow> nat \<Rightarrow> string \<Rightarrow> int \<Rightarrow> int \<Rightarrow> redis_db \<Rightarrow> Job list \<Rightarrow> Job list \<times> redis_db" where
  "redis_dequeue_loop [] lmt q currentTime lockUntil db dequeued = (dequeued, db)"
| "redis_dequeue_loop (jobId # rest) lmt q currentTime lockUntil db dequeued =
     (if length dequeued \<ge> lmt then (dequeued, db)
      else case hGetAll_job db jobId of
        None \<Rightarrow> redis_dequeue_loop rest lmt q currentTime lockUntil db dequeued
      | Some jobData \<Rightarrow>
          if attempts jobData \<ge> maxAttempts jobData \<or> lockedUntil jobData \<ge> currentTime then
            redis_dequeue_loop rest lmt q currentTime lockUntil db dequeued
          else
            redis_dequeue_loop rest lmt q currentTime lockUntil
              (db\<lparr>hashes := (hashes db)(jobId \<mapsto> JobHash (claim_job currentTime lockUntil jobData)),
                  pendingSet := (pendingSet db)(q := zRem jobId (pendingSet db q)),
                  processingSet := (processingSet db)(q := zAdd lockUntil jobId (processingSet db q))\<rparr>)
              (dequeued @ [(claim_job currentTime lockUntil jobData)\<lparr>job_id := jobId, queue := q\<rparr>]))"

definition redis_dequeue :: "int \<Rightarrow> string \<Rightarrow> DequeueOptions option \<Rightarrow> redis_db \<Rightarrow> Job list \<times> redis_db" where
  "redis_dequeue currentTime q opts db =
     (let lmt = limit_of opts;
          lockUntil = currentTime + visibilityTimeoutMs_of opts;
          candidates = zRangeByScore (pendingSet db q) 0 currentTime (lmt * 2)
      in redis_dequeue_loop candidates lmt q currentTime lockUntil db [])"

text \<open>
  \<open>ack\<close>: with \<open>deleteAfterAck\<close> the hash is deleted first and read afterwards, so the
  read finds no \<open>queue\<close> field and the processing set is left as it is; without it,
  \<open>hSet\<close> writes \<open>status\<close> and \<open>updatedAt\<close>.
\<close>

definition redis_ack :: "int \<Rightarrow> string \<Rightarrow> AckOptions option \<Rightarrow> redis_db \<Rightarrow> redis_db" where
  "redis_ack currentTime jobId opts db =
     (if deleteAfterAck_of opts then
        let db1 = db\<lparr>hashes := (hashes db)(jobId := None)\<rparr> in
        (case hashes db1 jobId of
           Some (JobHash jobData) \<Rightarrow>
             if queue jobData \<noteq> [] then
               db1\<lparr>processingSet := (processingSet db1)
                      (queue jobData := zRem jobId (processingSet db1 (queue jobData)))\<rparr>
             else db1
         | _ \<Rightarrow> db1)
      else hSet_status jobId completed currentTime db)"

definition redis_nack :: "int \<Rightarrow> string \<Rightarrow> NackOptions option \<Rightarrow> redis_db \<Rightarrow> redis_db" where
  "redis_nack currentTime jobId opts db =
     (case hGetAll_job db jobId of
        None \<Rightarrow> db
      | Some jobData \<Rightarrow>
          let q = queue jobData in
          if requeue_of opts then
            let vis = nack_visibleAt opts currentTime in
            db\<lparr>hashes := (hashes db)(jobId \<mapsto> JobHash (requeue_job currentTime vis jobData)),
               processingSet := (processingSet db)(q := zRem jobId (processingSet db q)),
               pendingSet := (pendingSet db)(q := zAdd vis jobId (pendingSet db q))\<rparr>
          else
            db\<lparr>hashes := (hashes db)(jobId \<mapsto> JobHash (mark_failed currentTime jobData)),
               processingSet := (processingSet db)(q := zRem jobId (processingSet db q))\<rparr>)"

definition redis_getJob :: "string \<Rightarrow> redis_db \<Rightarrow> Job option" where
  "redis_getJob jobId db =
     (case hGetAll_job db jobId of None \<Rightarrow> None | Some jobData \<Rightarrow> Some (jobData\<lparr>job_id := jobId\<rparr>))"

definition redis_logEvent ::
  "string \<Rightarrow> int \<Rightarrow> string \<Rightarrow> string \<Rightarrow> string option \<Rightarrow> redis_db \<Rightarrow> redis_db" where
  "redis_logEvent gen t jobId event data db =
     (case hGetAll_job db jobId of
        None \<Rightarrow> db
      | Some jobData \<Rightarrow>
          db\<lparr>logLists := (logLists db)(jobId := logLists db jobId @
                [\<lparr> log_id = gen, log_jobId = jobId, log_queue = queue jobData, log_event = event,
                   log_data = data, log_createdAt = t \<rparr>])\<rparr>)"

definition redis_getLogs :: "string \<Rightarrow> redis_db \<Rightarrow> JobLog list" where
  "redis_getLogs jobId db = logLists db jobId"

section \<open>The adapter interface and the queue facade (core/types.ts, core/create-queue)\<close>

text \<open>
  \<open>Adapter\<close> is the record of the operations of a backend over its store \<open>'s\<close>. The
  values that \<open>now()\<close> and \<open>genId()\<close> return inside an operation are arguments of the
  operation. \<open>stats\<close> is not modelled.
\<close>

record 's Adapter =
  enqueue :: "string \<Rightarrow> int \<Rightarrow> int \<Rightarrow> string \<Rightarrow> string \<Rightarrow> EnqueueOptions option \<Rightarrow> 's \<Rightarrow> error + (Job \<times> 's)"
  dequeue :: "int \<Rightarrow> string \<Rightarrow> DequeueOptions option \<Rightarrow> 's \<Rightarrow> Job list \<times> 's"
  ack :: "int \<Rightarrow> string \<Rightarrow> AckOptions option \<Rightarrow> 's \<Rightarrow> 's"
  nack :: "int \<Rightarrow> string \<Rightarrow> NackOptions option \<Rightarrow> 's \<Rightarrow> 's"
  getJob :: "string \<Rightarrow> 's \<Rightarrow> Job option"
  logEvent :: "string \<Rightarrow> int \<Rightarrow> string \<Rightarrow> string \<Rightarrow> string option \<Rightarrow> 's \<Rightarrow> error + 's"
  getLogs :: "string \<Rightarrow> 's \<Rightarrow> JobLog list"

definition mongodbAdapter :: "mongo_db Adapter" where
  "mongodbAdapter =
     \<lparr> enqueue = mongodb_enqueue, dequeue = mongodb_dequeue, ack = mongodb_ack, nack = mongodb_nack,
       getJob = mongodb_getJob, logEvent = mongodb_logEvent, getLogs = mongodb_getLogs \<rparr>"

definition drizzleAdapter :: "drizzle_db Adapter" where
  "drizzleAdapter =
     \<lparr> enqueue = drizzle_enqueue, dequeue = drizzle_dequeue, ack = drizzle_ack, nack = drizzle_nack,
       getJob = drizzle_getJob, logEvent = drizzle_logEvent, getLogs = drizzle_getLogs \<rparr>"

definition redisAdapter :: "redis_db Adapter" where
  "redisAdapter =
     \<lparr> enqueue = redis_enqueue,
       dequeue = redis_dequeue, ack = redis_ack, nack = redis_nack, getJob = redis_getJob,
       logEvent = (\<lambda>gen t jobId event data db. Inr (redis_logEvent gen t jobId event data db)),
       getLogs = redis_getLogs \<rparr>"

text \<open>
  The process around the store: \<open>reads\<close> counts the adapter calls made so far, and the
  environment gives the clock reading and the random id that the call with a given
  number sees (\<open>enqueue\<close> reads the clock twice and counts as two calls). \<open>sink\<close> is the
  list of the calls of the worker's \<open>logger\<close>, each with its event and the job id or queue
  it reports. \<open>stringify\<close> is \<open>JSON.stringify\<close> on the options of a nack.
\<close>

record env =
  now_at :: "nat \<Rightarrow> int"
  genId_at :: "nat \<Rightarrow> string"
  stringify :: "NackOptions option \<Rightarrow> string"

record 's world =
  store :: 's
  reads :: nat
  sink :: "(string \<times> string) list"

text \<open>\<open>createQueue(adapter).enqueue\<close>: \<open>adapter.enqueue\<close>, then
  \<open>adapter.logEvent(job.id, "enqueue", {payload})\<close>.\<close>

definition queue_enqueue ::
  "'s Adapter \<Rightarrow> env \<Rightarrow> string \<Rightarrow> string \<Rightarrow> EnqueueOptions option \<Rightarrow> 's world \<Rightarrow> error + (Job \<times> 's world)" where
  "queue_enqueue ad e q pl opts w =
     (case enqueue ad (genId_at e (reads w)) (now_at e (reads w)) (now_at e (Suc (reads w))) q pl opts (store w) of
        Inl err \<Rightarrow> Inl err
      | Inr (job, s1) \<Rightarrow>
          (case logEvent ad (genId_at e (reads w + 2)) (now_at e (reads w + 2)) (job_id job) ''enqueue''
                  (Some (''{\"payload\":'' @ pl @ ''}'')) s1 of
             Inl err \<Rightarrow> Inl err
           | Inr s2 \<Rightarrow> Inr (job, w\<lparr>store := s2, reads := reads w + 3\<rparr>)))"

section \<open>The worker (core/create-worker)\<close>

text \<open>
  A handler is user code. It is modelled by what it does with the context of a job:
  the context calls it makes, in order, and whether it then returns or throws. A
  context call that throws ends the handler with that exception.
\<close>

datatype ctx_call = Ack | Nack "NackOptions option" | Retry "int option" | Log string "string option"

datatype outcome = Returns | Throws

type_synonym QueueHandler = "Job \<Rightarrow> ctx_call list \<times> outcome"

record CreateWorkerOptions =
  concurrency :: "nat option"
  pollInterval :: "int option"
  visibilityTimeout :: "int option"

definition concurrency_of :: "CreateWorkerOptions option \<Rightarrow> nat" where
  "concurrency_of opts = (case opts of None \<Rightarrow> 1 | Some o1 \<Rightarrow> (case concurrency o1 of None \<Rightarrow> 1 | Some c \<Rightarrow> c))"

definition visibilityTimeout_of :: "CreateWorkerOptions option \<Rightarrow> int" where
  "visibilityTimeout_of opts =
     (case opts of None \<Rightarrow> 30000 | Some o1 \<Rightarrow> (case visibilityTimeout o1 of None \<Rightarrow> 30000 | Some v \<Rightarrow> v))"

text \<open>\<open>listen\<close>: \<open>listeners.set(queueName, handler)\<close> on a \<open>Map\<close>, which keeps the
  position of a key that is already there.\<close>

fun listen :: "string \<Rightarrow> QueueHandler \<Rightarrow> (string \<times> QueueHandler) list \<Rightarrow> (string \<times> QueueHandler) list" where
  "listen queueName handler [] = [(queueName, handler)]"
| "listen queueName handler ((q, h) # ls) =
     (if q = queueName then (q, handler) # ls else (q, h) # listen queueName handler ls)"

text \<open>The adapter calls of the worker. \<open>logEvent\<close> may throw; the result says so.\<close>

definition call_ack :: "'s Adapter \<Rightarrow> env \<Rightarrow> string \<Rightarrow> AckOptions option \<Rightarrow> 's world \<Rightarrow> 's world" where
  "call_ack ad e jobId opts w =
     w\<lparr>store := ack ad (now_at e (reads w)) jobId opts (store w), reads := Suc (reads w)\<rparr>"

definition call_nack :: "'s Adapter \<Rightarrow> env \<Rightarrow> string \<Rightarrow> NackOptions option \<Rightarrow> 's world \<Rightarrow> 's world" where
  "call_nack ad e jobId opts w =
     w\<lparr>store := nack ad (now_at e (reads w)) jobId opts (store w), reads := Suc (reads w)\<rparr>"

definition call_logEvent ::
  "'s Adapter \<Rightarrow> env \<Rightarrow> string \<Rightarrow> string \<Rightarrow> string option \<Rightarrow> 's world \<Rightarrow> error option \<times> 's world" where
  "call_logEvent ad e jobId event data w =
     (case logEvent ad (genId_at e (reads w)) (now_at e (reads w)) jobId event data (store w) of
        Inl err \<Rightarrow> (Some err, w\<lparr>reads := Suc (reads w)\<rparr>)
      | Inr s1 \<Rightarrow> (None, w\<lparr>store := s1, reads := Suc (reads w)\<rparr>))"

text \<open>The four functions of the context \<open>ctx\<close> of a job.\<close>

definition ctx_ack :: "'s Adapter \<Rightarrow> env \<Rightarrow> Job \<Rightarrow> 's world \<Rightarrow> error option \<times> 's world" where
  "ctx_ack ad e job w =
     call_logEvent ad e (job_id job) ''ack'' (Some ''{}'')
       (call_ack ad e (job_id job) (Some \<lparr>deleteAfterAck = Some False\<rparr>) w)"

definition ctx_nack :: "'s Adapter \<Rightarrow> env \<Rightarrow> Job \<Rightarrow> NackOptions option \<Rightarrow> 's world \<Rightarrow> error option \<times> 's world" where
  "ctx_nack ad e job opts w =
     call_logEvent ad e (job_id job) ''nack'' (Some (stringify e opts))
       (call_nack ad e (job_id job) opts w)"

definition ctx_retry :: "'s Adapter \<Rightarrow> env \<Rightarrow> Job \<Rightarrow> int option \<Rightarrow> 's world \<Rightarrow> error option \<times> 's world" where
  "ctx_retry ad e job d w = ctx_nack ad e job (Some \<lparr>requeue = Some True, delayMs = d\<rparr>) w"

definition ctx_log :: "'s Adapter \<Rightarrow> env \<Rightarrow> Job \<Rightarrow> string \<Rightarrow> string option \<Rightarrow> 's world \<Rightarrow> error option \<times> 's world" where
  "ctx_log ad e job event data w = call_logEvent ad e (job_id job) event data w"

fun run_ctx_call :: "'s Adapter \<Rightarrow> env \<Rightarrow> Job \<Rightarrow> ctx_call \<Rightarrow> 's world \<Rightarrow> error option \<times> 's world" where
  "run_ctx_call ad e job Ack w = ctx_ack ad e job w"
| "run_ctx_call ad e job (Nack opts) w = ctx_nack ad e job opts w"
| "run_ctx_call ad e job (Retry d) w = ctx_retry ad e job d w"
| "run_ctx_call ad e job (Log event data) w = ctx_log ad e job event data w"

text \<open>\<open>await handler(ctx)\<close>: the result is whether the handler threw, and the world it
  left.\<close>

fun run_handler :: "'s Adapter \<Rightarrow> env \<Rightarrow> Job \<Rightarrow> ctx_call list \<Rightarrow> outcome \<Rightarrow> 's world \<Rightarrow> bool \<times> 's world" where
  "run_handler ad e job [] out w = (out = Throws, w)"
| "run_handler ad e job (c # cs) out w =
     (case run_ctx_call ad e job c w of
        (Some err, w1) \<Rightarrow> (True, w1)
      | (None, w1) \<Rightarrow> run_handler ad e job cs out w1)"

text \<open>
  The callback of \<open>jobs.map\<close>: \<open>try { await handler(ctx) } catch (err) {
  logger("handler_error", {err, jobId: job.id}); await nack({requeue: true}) }\<close>, where
  \<open>nack\<close> is the function of the context. The result is the exception the callback
  ends with, if any.
\<close>

definition dispatch :: "'s Adapter \<Rightarrow> env \<Rightarrow> QueueHandler \<Rightarrow> Job \<Rightarrow> 's world \<Rightarrow> error option \<times> 's world" where
  "dispatch ad e handler job w =
     (case run_handler ad e job (fst (handler job)) (snd (handler job)) w of
        (False, w1) \<Rightarrow> (None, w1)
      | (True, w1) \<Rightarrow>
          ctx_nack ad e job (Some \<lparr>requeue = Some True, delayMs = None\<rparr>)
            (w1\<lparr>sink := sink w1 @ [(''handler_error'', job_id job)]\<rparr>))"

text \<open>
  \<open>await Promise.all(jobs.map(...))\<close>: every callback runs; the result is the first
  rejection. The model runs the callbacks one after the other in the order of the jobs.
  That is what the code does when the dequeue returns one job, as it does with the
  default concurrency of 1. With two or more jobs the callbacks of the code take turns
  at their awaits, so the calls of different jobs read the clock in another order than
  here; nothing below is stated for that case.
\<close>

fun dispatch_all :: "'s Adapter \<Rightarrow> env \<Rightarrow> QueueHandler \<Rightarrow> Job list \<Rightarrow> 's world \<Rightarrow> error option \<times> 's world" where
  "dispatch_all ad e handler [] w = (None, w)"
| "dispatch_all ad e handler (job # js) w =
     (case dispatch ad e handler job w of
        (r, w1) \<Rightarrow> (case dispatch_all ad e handler js w1 of
                      (r', w2) \<Rightarrow> (if r = None then r' else r, w2)))"

text \<open>The body of \<open>for (const q of qs)\<close>; the flag is \<open>workDone\<close>.\<close>

definition poll_queue ::
  "'s Adapter \<Rightarrow> env \<Rightarrow> CreateWorkerOptions option \<Rightarrow> string \<Rightarrow> QueueHandler \<Rightarrow> 's world \<times> bool \<Rightarrow> 's world \<times> bool" where
  "poll_queue ad e opts q handler wd =
     (let w = fst wd;
          (js, s1) = dequeue ad (now_at e (reads w)) q
             (Some \<lparr>limit = Some (concurrency_of opts),
                    visibilityTimeoutMs = Some (visibilityTimeout_of opts)\<rparr>) (store w);
          w1 = w\<lparr>store := s1, reads := Suc (reads w)\<rparr>
      in if js = [] then (w1, snd wd)
         else (case dispatch_all ad e handler js w1 of
                 (None, w2) \<Rightarrow> (w2, True)
               | (Some err, w2) \<Rightarrow> (w2\<lparr>sink := sink w2 @ [(''dequeue_error'', q)]\<rparr>, True)))"

text \<open>One round of \<open>while (running.value)\<close>, the sleeps left out: the world after the
  round.\<close>

definition poll_cycle ::
  "'s Adapter \<Rightarrow> env \<Rightarrow> CreateWorkerOptions option \<Rightarrow> (string \<times> QueueHandler) list \<Rightarrow> 's world \<Rightarrow> 's world" where
  "poll_cycle ad e opts listeners w =
     fst (fold (\<lambda>(q, handler) wd. poll_queue ad e opts q handler wd) listeners (w, False))"

text \<open>A handler that throws at once, whatever the job.\<close>

definition always_throws :: QueueHandler where
  "always_throws job = ([], Throws)"

section \<open>Example stores\<close>

definition empty_mongo :: mongo_db where
  "empty_mongo = \<lparr>jobsCollection = [], logsCollection = []\<rparr>"

definition empty_drizzle :: drizzle_db where
  "empty_drizzle = \<lparr>jobs = [], jobLogs = []\<rparr>"

definition empty_redis :: redis_db where
  "empty_redis = \<lparr>hashes = (\<lambda>k. None), pendingSet = (\<lambda>k. []), processingSet = (\<lambda>k. []),
     logLists = (\<lambda>k. [])\<rparr>"

text \<open>The options \<open>{meta: {}}\<close> of an enqueue; the job that \<open>enqueue("q", {}, {meta: {}})\<close>
  creates at time 1000 when \<open>genId()\<close> gives \<open>job_a\<close>; and the same job once claimed at time
  2000 with the default visibility timeout.\<close>

definition meta_opts :: EnqueueOptions where
  "meta_opts = \<lparr>opt_jobId = None, opt_delayMs = None, opt_maxAttempts = None,
                 opt_overwrite = None, opt_meta = Some ''{}''\<rparr>"

definition job_a :: Job where
  "job_a = new_job ''job_a'' 1000 1000 ''q'' ''{}'' (Some meta_opts)"

definition leased_a :: Job where
  "leased_a = claim_job 2000 32000 job_a"

section \<open>What the nack options mean\<close>

text \<open>\<open>opts?.delayMs\<close>, zero when absent; and the job a nack leaves behind.\<close>

definition delayMs_of :: "NackOptions option \<Rightarrow> int" where
  "delayMs_of opts = (case opts of None \<Rightarrow> 0 | Some o1 \<Rightarrow> (case delayMs o1 of None \<Rightarrow> 0 | Some d \<Rightarrow> d))"

definition nack_result :: "int \<Rightarrow> NackOptions option \<Rightarrow> Job \<Rightarrow> Job" where
  "nack_result t opts j =
     (if requeue_of opts
      then j\<lparr>status := pending, lockedUntil := 0, visibleAt := t + delayMs_of opts, updatedAt := t\<rparr>
      else j\<lparr>status := failed, updatedAt := t\<rparr>)"

section \<open>Auxiliary definitions for the proofs\<close>

text \<open>The update of every document whose id is \<open>a\<close>; in a collection with distinct ids
  this is what \<open>updateOne\<close> by id does.\<close>

definition upd :: "string \<Rightarrow> (Job \<Rightarrow> Job) \<Rightarrow> Job list \<Rightarrow> Job list" where
  "upd a f xs = map (\<lambda>d. if job_id d = a then f d else d) xs"

text \<open>What a round of the MongoDB dequeue loop does to its candidate.\<close>

definition dequeue_step :: "int \<Rightarrow> int \<Rightarrow> Job \<Rightarrow> Job" where
  "dequeue_step t l d = (if attempts d \<ge> maxAttempts d then mark_failed t d else claim_job t l d)"

text \<open>A job that has used its single attempt: enqueued with \<open>maxAttempts = 1\<close>, claimed
  at 2000 and requeued by a nack at 3000.\<close>

definition spent_a :: Job where
  "spent_a = requeue_job 3000 3000 (claim_job 2000 32000
     (new_job ''job_a'' 1000 1000 ''q'' ''{}'' (Some (meta_opts\<lparr>opt_maxAttempts := Some 1\<rparr>))))"





text \<open>The audit entry that the context's \<open>nack({requeue: true})\<close> of job \<open>j\<close> writes when it
  is the adapter call with number \<open>k\<close>.\<close>

definition nack_log :: "env \<Rightarrow> nat \<Rightarrow> Job \<Rightarrow> JobLog" where
  "nack_log e k j =
     \<lparr> log_id = genId_at e k, log_jobId = job_id j, log_queue = queue j, log_event = ''nack'',
       log_data = Some (stringify e (Some \<lparr>requeue = Some True, delayMs = None\<rparr>)),
       log_createdAt = now_at e k \<rparr>"

text \<open>An environment whose clock starts at 1000 and advances by one per call, and whose
  ids are \<open>job_a\<close>, \<open>job_aa\<close>, ...; and worlds that hold \<open>job_a\<close> after three calls.\<close>

definition clock_env :: env where
  "clock_env = \<lparr> now_at = (\<lambda>k. 1000 + int k),
                 genId_at = (\<lambda>k. ''job_'' @ replicate (Suc k) CHR ''a''),
                 stringify = (\<lambda>opts. ''{opts}'') \<rparr>"

definition mongo_world :: "mongo_db world" where
  "mongo_world = \<lparr> store = \<lparr>jobsCollection = [job_a], logsCollection = []\<rparr>, reads = 3, sink = [] \<rparr>"

definition drizzle_world :: "drizzle_db world" where
  "drizzle_world = \<lparr> store = \<lparr>jobs = [job_a], jobLogs = []\<rparr>, reads = 3, sink = [] \<rparr>"

definition redis_world :: "redis_db world" where
  "redis_world =
     \<lparr> store = (case redis_enqueue ''job_a'' 1000 1000 ''q'' ''{}'' (Some meta_opts) empty_redis of
                   Inl err \<Rightarrow> empty_redis | Inr (j, db) \<Rightarrow> db),
       reads = 3, sink = [] \<rparr>"

section \<open>Backoff\<close>

lemma defaultBackoff_pos: "0 \<le> n \<Longrightarrow> defaultBackoff (n + 1) = min 60000 (1000 * 2 ^ nat n)"
  by (simp add: defaultBackoff_def clamp_def power_int_def max_def min_def)

lemma defaultBackoff_le_cap: "defaultBackoff n \<le> 60000"
  by (simp add: defaultBackoff_def clamp_def)

lemma defaultBackoff_closed_form:
  assumes "1 \<le> n"
  shows "defaultBackoff n = (if n \<le> 6 then 1000 * 2 ^ nat (n - 1) else 60000)"
proof (cases "n \<le> 6")
  case True
  with assms have "n \<in> {1, 2, 3, 4, 5, 6}" by auto
  then show ?thesis
    by (auto simp: defaultBackoff_def clamp_def)
next
  case False
  then have "6 \<le> nat (n - 1)" by simp
  then have "(2::real) ^ 6 \<le> 2 ^ nat (n - 1)"
    by (intro power_increasing) simp_all
  then have "(60000::real) \<le> 1000 * 2 ^ nat (n - 1)" by simp
  moreover have "defaultBackoff n = min 60000 (1000 * 2 ^ nat (n - 1))"
    using defaultBackoff_pos [of "n - 1"] assms by simp
  ultimately show ?thesis using False by simp
qed

text \<open>
  C8. For an attempt count \<open>n \<ge> 1\<close> the default backoff is
  \<open>clamp (1000 * 2 ^ (n - 1)) 0 60000\<close>, that is \<open>1000 * 2 ^ (n - 1)\<close> up to the sixth
  attempt and the cap 60000 from the seventh on; it does not decrease from \<open>n\<close> to
  \<open>n + 1\<close>, and it is at most 60000 for every count \<open>m\<close>, also below one. The function is
  a pure function of its argument.
\<close>

theorem defaultBackoff_exponential_clamped:
  assumes "1 \<le> n"
  shows "defaultBackoff n = clamp (1000 * 2 ^ nat (n - 1)) 0 60000
       \<and> defaultBackoff n = (if n \<le> 6 then 1000 * 2 ^ nat (n - 1) else 60000)
       \<and> defaultBackoff n \<le> defaultBackoff (n + 1)
       \<and> defaultBackoff m \<le> 60000"
proof -
  have a: "defaultBackoff n = clamp (1000 * 2 ^ nat (n - 1)) 0 60000"
    using assms by (simp add: defaultBackoff_def power_int_def)
  have b: "defaultBackoff n = min 60000 (1000 * 2 ^ nat (n - 1))"
    using defaultBackoff_pos [of "n - 1"] assms by simp
  have c: "defaultBackoff (n + 1) = min 60000 (1000 * 2 ^ nat n)"
    using defaultBackoff_pos [of n] assms by simp
  have "nat (n - 1) \<le> nat n" by simp
  then have "(2::real) ^ nat (n - 1) \<le> 2 ^ nat n"
    by (intro power_increasing) simp_all
  then have d: "defaultBackoff n \<le> defaultBackoff (n + 1)"
    unfolding b c by (simp add: min_le_iff_disj)
  show ?thesis
    using a d defaultBackoff_closed_form [OF assms] defaultBackoff_le_cap by simp
qed

theorem defaultBackoff_exponential_clamped_witness:
  "defaultBackoff 3 = 4000 \<and> defaultBackoff 3 \<le> defaultBackoff 4 \<and> defaultBackoff (- 2) \<le> 60000"
  using defaultBackoff_exponential_clamped [of 3 "- 2"] by simp

section \<open>Audit logs are read newest first\<close>

text \<open>
  C10. In the MongoDB and the Drizzle adapter \<open>getLogs jobId\<close> returns exactly the log
  entries of that job (as a multiset), in descending order of \<open>createdAt\<close>.
\<close>

theorem getLogs_newest_first:
  "sorted (rev (map log_createdAt (mongodb_getLogs jobId mdb)))
   \<and> mset (mongodb_getLogs jobId mdb) = filter_mset (\<lambda>l. log_jobId l = jobId) (mset (logsCollection mdb))
   \<and> sorted (rev (map log_createdAt (drizzle_getLogs jobId ddb)))
   \<and> mset (drizzle_getLogs jobId ddb) = filter_mset (\<lambda>l. log_jobId l = jobId) (mset (jobLogs ddb))"
proof -
  have desc: "sorted (rev (map log_createdAt (sort_key (\<lambda>l. - log_createdAt l) xs)))" for xs :: "JobLog list"
  proof -
    have "sorted (map (\<lambda>l. - log_createdAt l) (sort_key (\<lambda>l. - log_createdAt l) xs))"
      by (rule sorted_sort_key)
    then have "sorted_wrt (\<lambda>a b. log_createdAt b \<le> log_createdAt a) (sort_key (\<lambda>l. - log_createdAt l) xs)"
      by (simp add: sorted_map)
    then show ?thesis
      by (simp add: sorted_wrt_rev sorted_wrt_map)
  qed
  show ?thesis
    by (simp add: mongodb_getLogs_def drizzle_getLogs_def desc)
qed

section \<open>Store primitives\<close>

lemma findOne_None_iff: "findOne P xs = None \<longleftrightarrow> (\<forall>x \<in> set xs. \<not> P x)"
  by (auto simp: findOne_def find_None_iff)

lemma updateOne_no_match: "findOne P xs = None \<Longrightarrow> updateOne P f xs = xs"
  by (induction xs) (auto simp: findOne_def split: if_splits)

lemma findOne_updateOne:
  assumes "\<And>x. P x \<Longrightarrow> P (f x)"
  shows "findOne P (updateOne P f xs) = map_option f (findOne P xs)"
  using assms by (induction xs) (auto simp: findOne_def)

lemma deleteOne_no_match: "findOne P xs = None \<Longrightarrow> deleteOne P xs = xs"
  by (induction xs) (auto simp: findOne_def split: if_splits)

lemma updateOne_twice:
  assumes "\<And>x. P x \<Longrightarrow> P (f x)" "\<And>x. g (f x) = g x"
  shows "updateOne P g (updateOne P f xs) = updateOne P g xs"
  using assms by (induction xs) auto

lemma deleteOne_distinct_gone:
  "distinct (map k xs) \<Longrightarrow> x \<in> set (deleteOne (\<lambda>d. k d = a) xs) \<Longrightarrow> k x \<noteq> a"
  by (induction xs) (auto split: if_splits simp: image_iff)

lemma findOne_deleteOne_distinct:
  "distinct (map k xs) \<Longrightarrow> findOne (\<lambda>d. k d = a) (deleteOne (\<lambda>d. k d = a) xs) = None"
  using deleteOne_distinct_gone [of k xs _ a] by (auto simp: findOne_None_iff)

lemma update_where_twice:
  assumes "\<And>x. P x \<Longrightarrow> P (f x)" "\<And>x. g (f x) = g x"
  shows "update_where P g (update_where P f rows) = update_where P g rows"
  using assms by (induction rows) (auto simp: update_where_def)

lemma filter_update_where:
  assumes "\<And>x. P x \<Longrightarrow> P (f x)"
  shows "filter P (update_where P f rows) = map f (filter P rows)"
  using assms by (induction rows) (auto simp: update_where_def)

lemma update_where_no_match: "filter P rows = [] \<Longrightarrow> update_where P f rows = rows"
  by (induction rows) (auto simp: update_where_def split: if_splits)

lemma delete_where_no_match: "filter P rows = [] \<Longrightarrow> delete_where P rows = rows"
  by (induction rows) (auto simp: delete_where_def split: if_splits)

lemma filter_delete_where: "filter P (delete_where P rows) = []"
  by (induction rows) (auto simp: delete_where_def)

lemma delete_where_twice: "delete_where P (delete_where P rows) = delete_where P rows"
  by (simp add: delete_where_def)

lemma nack_visibleAt_eq: "nack_visibleAt opts t = t + delayMs_of opts"
  by (auto simp: nack_visibleAt_def delayMs_of_def split: option.splits)

section \<open>nack\<close>

lemma mongodb_nack_getJob:
  "mongodb_getJob jobId db = Some j \<Longrightarrow>
   mongodb_getJob jobId (mongodb_nack t jobId opts db) = Some (nack_result t opts j)"
  by (simp add: mongodb_getJob_def mongodb_nack_def findOne_updateOne requeue_job_def
      mark_failed_def nack_result_def nack_visibleAt_eq)

lemma drizzle_nack_getJob:
  "drizzle_getJob jobId db = Some j \<Longrightarrow>
   drizzle_getJob jobId (drizzle_nack t jobId opts db) = Some (nack_result t opts j)"
  by (auto simp: drizzle_getJob_def drizzle_nack_def filter_update_where requeue_job_def
      mark_failed_def nack_result_def nack_visibleAt_eq take_map split: list.splits)

lemma redis_nack_getJob:
  "redis_getJob jobId db = Some j \<Longrightarrow>
   redis_getJob jobId (redis_nack t jobId opts db) = Some (nack_result t opts j)"
  by (auto simp: redis_getJob_def redis_nack_def hGetAll_job_def requeue_job_def
      mark_failed_def nack_result_def nack_visibleAt_eq Let_def
      split: option.splits redis_hash.splits if_splits)

text \<open>
  C5, as the spec states it, fails: a nack with \<open>requeue = false\<close> does not clear the
  lease. The job enqueued at 1000 and claimed at 2000 holds the lease \<open>lockedUntil = 32000\<close>;
  after \<open>nack(id, {requeue: false})\<close> at 3000 it is failed and \<open>lockedUntil\<close> is still 32000.
\<close>

theorem nack_without_requeue_keeps_lease:
  "(case mongodb_enqueue ''job_a'' 1000 1000 ''q'' ''{}'' None empty_mongo of
      Inl e \<Rightarrow> None
    | Inr (j, db1) \<Rightarrow>
        (let (js, db2) = mongodb_dequeue 2000 ''q'' None db1;
             db3 = mongodb_nack 3000 ''job_a'' (Some \<lparr>requeue = Some False, delayMs = None\<rparr>) db2
         in map_option (\<lambda>j. (status j, lockedUntil j)) (mongodb_getJob ''job_a'' db3)))
   = Some (failed, 32000)"
  by code_simp

text \<open>
  C5, amended. For a job that \<open>getJob\<close> finds, in each of the three adapters: a nack
  whose \<open>requeue\<close> is not \<open>false\<close> sets \<open>status\<close> to pending, \<open>lockedUntil\<close> to 0,
  \<open>visibleAt\<close> to the current time plus \<open>delayMs\<close> (plus nothing when it is absent) and
  \<open>updatedAt\<close> to the current time; a nack with \<open>requeue = false\<close> sets \<open>status\<close> to
  failed and \<open>updatedAt\<close> to the current time, and leaves \<open>lockedUntil\<close> and \<open>visibleAt\<close>
  as they were. No other field of the job changes.
\<close>

theorem nack_effect:
  "(mongodb_getJob jobId mdb = Some mj \<longrightarrow>
      mongodb_getJob jobId (mongodb_nack t jobId opts mdb) = Some (nack_result t opts mj))
   \<and> (drizzle_getJob jobId ddb = Some dj \<longrightarrow>
      drizzle_getJob jobId (drizzle_nack t jobId opts ddb) = Some (nack_result t opts dj))
   \<and> (redis_getJob jobId rdb = Some rj \<longrightarrow>
      redis_getJob jobId (redis_nack t jobId opts rdb) = Some (nack_result t opts rj))"
  by (simp add: mongodb_nack_getJob drizzle_nack_getJob redis_nack_getJob)

theorem nack_effect_witness:
  "mongodb_getJob ''job_a'' (mongodb_nack 3000 ''job_a'' None \<lparr>jobsCollection = [leased_a], logsCollection = []\<rparr>)
     = Some (leased_a\<lparr>status := pending, lockedUntil := 0, visibleAt := 3000, updatedAt := 3000\<rparr>)
   \<and> drizzle_getJob ''job_a'' (drizzle_nack 3000 ''job_a'' (Some \<lparr>requeue = None, delayMs = Some 500\<rparr>)
         \<lparr>jobs = [leased_a], jobLogs = []\<rparr>)
     = Some (leased_a\<lparr>status := pending, lockedUntil := 0, visibleAt := 3500, updatedAt := 3000\<rparr>)
   \<and> redis_getJob ''job_a'' (redis_nack 3000 ''job_a'' (Some \<lparr>requeue = Some False, delayMs = None\<rparr>)
         (empty_redis\<lparr>hashes := (\<lambda>k. if k = ''job_a'' then Some (JobHash leased_a) else None)\<rparr>))
     = Some (leased_a\<lparr>status := failed, updatedAt := 3000\<rparr>)"
  using nack_effect [of "''job_a''" "\<lparr>jobsCollection = [leased_a], logsCollection = []\<rparr>" leased_a
      3000 None "\<lparr>jobs = [leased_a], jobLogs = []\<rparr>" leased_a
      "empty_redis\<lparr>hashes := (\<lambda>k. if k = ''job_a'' then Some (JobHash leased_a) else None)\<rparr>" leased_a]
    nack_effect [of "''job_a''" "\<lparr>jobsCollection = [leased_a], logsCollection = []\<rparr>" leased_a
      3000 "Some \<lparr>requeue = None, delayMs = Some 500\<rparr>" "\<lparr>jobs = [leased_a], jobLogs = []\<rparr>" leased_a
      "empty_redis\<lparr>hashes := (\<lambda>k. if k = ''job_a'' then Some (JobHash leased_a) else None)\<rparr>" leased_a]
    nack_effect [of "''job_a''" "\<lparr>jobsCollection = [leased_a], logsCollection = []\<rparr>" leased_a
      3000 "Some \<lparr>requeue = Some False, delayMs = None\<rparr>" "\<lparr>jobs = [leased_a], jobLogs = []\<rparr>" leased_a
      "empty_redis\<lparr>hashes := (\<lambda>k. if k = ''job_a'' then Some (JobHash leased_a) else None)\<rparr>" leased_a]
  by (simp add: mongodb_getJob_def drizzle_getJob_def redis_getJob_def hGetAll_job_def findOne_def
      empty_redis_def leased_a_def job_a_def new_job_def meta_opts_def claim_job_def nack_result_def
      requeue_of_def delayMs_of_def)

section \<open>enqueue\<close>

text \<open>The Redis \<open>enqueue\<close> without \<open>meta\<close> throws.\<close>

lemma redis_enqueue_without_meta:
  "redis_enqueue gen t1 t2 q pl None db = Inl TypeError"
  "redis_enqueue gen t1 t2 q pl (Some (o1\<lparr>opt_meta := None\<rparr>)) db = Inl TypeError"
  by (simp_all add: redis_enqueue_def new_job_def)

section \<open>ack\<close>

lemma mongodb_ack_twice:
  "distinct (map job_id (jobsCollection db)) \<Longrightarrow>
   mongodb_ack t2 jobId opts (mongodb_ack t1 jobId opts db) = mongodb_ack t2 jobId opts db"
  by (simp add: mongodb_ack_def updateOne_twice deleteOne_no_match findOne_deleteOne_distinct)

lemma mongodb_ack_twice_getJob:
  "distinct (map job_id (jobsCollection db)) \<Longrightarrow>
   mongodb_getJob jobId (mongodb_ack t2 jobId opts (mongodb_ack t1 jobId opts db))
     = map_option (\<lambda>j. j\<lparr>updatedAt := t2\<rparr>) (mongodb_getJob jobId (mongodb_ack t1 jobId opts db))"
  by (simp add: mongodb_ack_def mongodb_getJob_def findOne_updateOne deleteOne_no_match
      findOne_deleteOne_distinct option.map_comp comp_def)

lemma drizzle_ack_twice:
  "drizzle_ack t2 jobId opts (drizzle_ack t1 jobId opts db) = drizzle_ack t2 jobId opts db"
  by (simp add: drizzle_ack_def update_where_twice delete_where_twice)

lemma drizzle_ack_twice_getJob:
  "drizzle_getJob jobId (drizzle_ack t2 jobId opts (drizzle_ack t1 jobId opts db))
     = map_option (\<lambda>j. j\<lparr>updatedAt := t2\<rparr>) (drizzle_getJob jobId (drizzle_ack t1 jobId opts db))"
  by (auto simp: drizzle_ack_def drizzle_getJob_def filter_update_where filter_delete_where
      delete_where_twice take_map split: list.splits)

lemma redis_ack_twice:
  "redis_ack t2 jobId opts (redis_ack t1 jobId opts db) = redis_ack t2 jobId opts db"
  by (auto simp: redis_ack_def hSet_status_def split: option.splits redis_hash.splits)

lemma redis_ack_twice_getJob:
  "redis_getJob jobId (redis_ack t2 jobId opts (redis_ack t1 jobId opts db))
     = map_option (\<lambda>j. j\<lparr>updatedAt := t2\<rparr>) (redis_getJob jobId (redis_ack t1 jobId opts db))"
  by (auto simp: redis_ack_def redis_getJob_def hGetAll_job_def hSet_status_def
      split: option.splits redis_hash.splits)

lemma mongodb_ack_getJob:
  "distinct (map job_id (jobsCollection db)) \<Longrightarrow>
   mongodb_getJob jobId (mongodb_ack t jobId opts db)
     = (if deleteAfterAck_of opts then None
        else map_option (\<lambda>j. j\<lparr>status := completed, updatedAt := t\<rparr>) (mongodb_getJob jobId db))"
  by (simp add: mongodb_ack_def mongodb_getJob_def findOne_updateOne findOne_deleteOne_distinct)

lemma drizzle_ack_getJob:
  "drizzle_getJob jobId (drizzle_ack t jobId opts db)
     = (if deleteAfterAck_of opts then None
        else map_option (\<lambda>j. j\<lparr>status := completed, updatedAt := t\<rparr>) (drizzle_getJob jobId db))"
  by (auto simp: drizzle_ack_def drizzle_getJob_def filter_update_where filter_delete_where
      take_map split: list.splits)

lemma redis_ack_getJob:
  "redis_getJob jobId (redis_ack t jobId opts db)
     = (if deleteAfterAck_of opts then None
        else map_option (\<lambda>j. j\<lparr>status := completed, updatedAt := t\<rparr>) (redis_getJob jobId db))"
  by (auto simp: redis_ack_def redis_getJob_def hGetAll_job_def hSet_status_def
      split: option.splits redis_hash.splits)

text \<open>
  C6. In each of the three adapters (for MongoDB: in a collection whose \<open>_id\<close>s are
  distinct) and for every job id, options and store: after an ack at time \<open>t1\<close>, \<open>getJob\<close>
  shows the job with \<open>status = completed\<close> and \<open>updatedAt = t1\<close>, or nothing when the ack
  deletes (or when there was no job). After a second ack with the same options at time
  \<open>t2\<close>, \<open>getJob\<close> shows what it showed after the first, the \<open>status\<close> and the presence of
  the job included, with the time of the last write, \<open>updatedAt\<close>, now \<open>t2\<close>; and the store
  is the one that the single ack at \<open>t2\<close> leaves. The second call returns normally: ack is
  a total function of the store, it has no failing branch.
\<close>

theorem ack_twice:
  assumes "distinct (map job_id (jobsCollection mdb))"
  shows "mongodb_getJob jobId (mongodb_ack t1 jobId opts mdb)
        = (if deleteAfterAck_of opts then None
           else map_option (\<lambda>j. j\<lparr>status := completed, updatedAt := t1\<rparr>) (mongodb_getJob jobId mdb))
    \<and> mongodb_getJob jobId (mongodb_ack t2 jobId opts (mongodb_ack t1 jobId opts mdb))
        = map_option (\<lambda>j. j\<lparr>updatedAt := t2\<rparr>) (mongodb_getJob jobId (mongodb_ack t1 jobId opts mdb))
    \<and> mongodb_ack t2 jobId opts (mongodb_ack t1 jobId opts mdb) = mongodb_ack t2 jobId opts mdb
    \<and> drizzle_getJob jobId (drizzle_ack t1 jobId opts ddb)
        = (if deleteAfterAck_of opts then None
           else map_option (\<lambda>j. j\<lparr>status := completed, updatedAt := t1\<rparr>) (drizzle_getJob jobId ddb))
    \<and> drizzle_getJob jobId (drizzle_ack t2 jobId opts (drizzle_ack t1 jobId opts ddb))
        = map_option (\<lambda>j. j\<lparr>updatedAt := t2\<rparr>) (drizzle_getJob jobId (drizzle_ack t1 jobId opts ddb))
    \<and> drizzle_ack t2 jobId opts (drizzle_ack t1 jobId opts ddb) = drizzle_ack t2 jobId opts ddb
    \<and> redis_getJob jobId (redis_ack t1 jobId opts rdb)
        = (if deleteAfterAck_of opts then None
           else map_option (\<lambda>j. j\<lparr>status := completed, updatedAt := t1\<rparr>) (redis_getJob jobId rdb))
    \<and> redis_getJob jobId (redis_ack t2 jobId opts (redis_ack t1 jobId opts rdb))
        = map_option (\<lambda>j. j\<lparr>updatedAt := t2\<rparr>) (redis_getJob jobId (redis_ack t1 jobId opts rdb))
    \<and> redis_ack t2 jobId opts (redis_ack t1 jobId opts rdb) = redis_ack t2 jobId opts rdb"
  by (intro conjI mongodb_ack_getJob mongodb_ack_twice mongodb_ack_twice_getJob
      drizzle_ack_getJob drizzle_ack_twice drizzle_ack_twice_getJob
      redis_ack_getJob redis_ack_twice redis_ack_twice_getJob assms)

theorem ack_twice_witness:
  "distinct (map job_id [leased_a])
   \<and> mongodb_getJob ''job_a'' (mongodb_ack 3000 ''job_a'' None \<lparr>jobsCollection = [leased_a], logsCollection = []\<rparr>)
     = Some (leased_a\<lparr>status := completed, updatedAt := 3000\<rparr>)
   \<and> mongodb_getJob ''job_a'' (mongodb_ack 4000 ''job_a'' None
        (mongodb_ack 3000 ''job_a'' None \<lparr>jobsCollection = [leased_a], logsCollection = []\<rparr>))
     = Some (leased_a\<lparr>status := completed, updatedAt := 4000\<rparr>)
   \<and> mongodb_getJob ''job_a'' (mongodb_ack 4000 ''job_a'' (Some \<lparr>deleteAfterAck = Some True\<rparr>)
        (mongodb_ack 3000 ''job_a'' (Some \<lparr>deleteAfterAck = Some True\<rparr>)
           \<lparr>jobsCollection = [leased_a], logsCollection = []\<rparr>))
     = None"
  using ack_twice [of "\<lparr>jobsCollection = [leased_a], logsCollection = []\<rparr>" "''job_a''" 3000 None 4000]
    ack_twice [of "\<lparr>jobsCollection = [leased_a], logsCollection = []\<rparr>" "''job_a''" 3000
      "Some \<lparr>deleteAfterAck = Some True\<rparr>" 4000]
  by (simp add: mongodb_getJob_def mongodb_ack_def deleteAfterAck_of_def findOne_def
      leased_a_def job_a_def new_job_def meta_opts_def claim_job_def)

section \<open>Operations on a job that is not in the store\<close>

lemma mongodb_missing_job_noop:
  assumes "mongodb_getJob jobId db = None"
  shows "mongodb_ack t jobId aopts db = db" "mongodb_nack t jobId nopts db = db"
    "mongodb_logEvent gen t jobId event data db = Inr db"
  using assms
  by (simp_all add: mongodb_getJob_def mongodb_ack_def mongodb_nack_def mongodb_logEvent_def
      updateOne_no_match deleteOne_no_match)

lemma drizzle_missing_job_noop:
  assumes "drizzle_getJob jobId db = None"
  shows "drizzle_ack t jobId aopts db = db" "drizzle_nack t jobId nopts db = db"
    "drizzle_logEvent gen t jobId event data db = Inr db"
proof -
  from assms have "filter (\<lambda>r. job_id r = jobId) (jobs db) = []"
    by (cases "filter (\<lambda>r. job_id r = jobId) (jobs db)") (simp_all add: drizzle_getJob_def)
  then show "drizzle_ack t jobId aopts db = db" "drizzle_nack t jobId nopts db = db"
    "drizzle_logEvent gen t jobId event data db = Inr db"
    by (simp_all add: drizzle_ack_def drizzle_nack_def drizzle_logEvent_def
        update_where_no_match delete_where_no_match)
qed

lemma redis_missing_job_noop:
  assumes "redis_getJob jobId db = None"
  shows "redis_nack t jobId nopts db = db" "redis_logEvent gen t jobId event data db = db"
  using assms
  by (simp_all add: redis_getJob_def redis_nack_def redis_logEvent_def split: option.splits)

lemma redis_ack_delete_absent_noop:
  assumes "hashes db jobId = None"
  shows "redis_ack t jobId (Some \<lparr>deleteAfterAck = Some True\<rparr>) db = db"
proof -
  have "(hashes db)(jobId := None) = hashes db"
    using assms by (simp add: fun_upd_idem)
  then show ?thesis
    using assms by (simp add: redis_ack_def deleteAfterAck_of_def)
qed

lemma ack_delete_removes_job:
  "distinct (map job_id (jobsCollection mdb)) \<Longrightarrow>
     mongodb_getJob jobId (mongodb_ack t jobId (Some \<lparr>deleteAfterAck = Some True\<rparr>) mdb) = None"
  "drizzle_getJob jobId (drizzle_ack t jobId (Some \<lparr>deleteAfterAck = Some True\<rparr>) ddb) = None"
  "redis_getJob jobId (redis_ack t jobId (Some \<lparr>deleteAfterAck = Some True\<rparr>) rdb) = None"
  "hashes (redis_ack t jobId (Some \<lparr>deleteAfterAck = Some True\<rparr>) rdb) jobId = None"
  by (simp_all add: mongodb_getJob_def mongodb_ack_def drizzle_getJob_def drizzle_ack_def
      redis_getJob_def redis_ack_def deleteAfterAck_of_def findOne_deleteOne_distinct
      filter_delete_where hGetAll_job_def)



text \<open>
  C7. The Redis \<open>ack\<close> without \<open>deleteAfterAck\<close> writes to the store when the job is
  absent: in the empty store, \<open>ack("ghost")\<close> at time 1000 creates the hash \<open>job:ghost\<close>
  holding \<open>status = completed\<close> and \<open>updatedAt = 1000\<close>, which \<open>getJob\<close> does not report.
\<close>

theorem redis_ack_absent_job_creates_hash:
  "hashes empty_redis ''ghost'' = None
   \<and> hashes (redis_ack 1000 ''ghost'' None empty_redis) ''ghost'' = Some (StatusHash completed 1000)
   \<and> redis_getJob ''ghost'' (redis_ack 1000 ''ghost'' None empty_redis) = None"
  by (simp add: empty_redis_def redis_ack_def deleteAfterAck_of_def hSet_status_def
      redis_getJob_def hGetAll_job_def)

text \<open>
  C9. In the Redis adapter an ack that follows \<open>ack(id, {deleteAfterAck: true})\<close> writes
  job data again: the job enqueued at 1000 with \<open>{meta: {}}\<close> is deleted by the ack at 2000 (\<open>getJob\<close> finds
  nothing, the hash is gone), and the plain ack at 3000 creates the hash \<open>job:job_a\<close> with
  \<open>status = completed\<close> and \<open>updatedAt = 3000\<close>.
\<close>

theorem redis_ack_after_delete_creates_hash:
  "(case redis_enqueue ''job_a'' 1000 1000 ''q'' ''{}'' (Some meta_opts) empty_redis of
      Inl e \<Rightarrow> False
    | Inr (j, db1) \<Rightarrow>
        (let db2 = redis_ack 2000 ''job_a'' (Some \<lparr>deleteAfterAck = Some True\<rparr>) db1;
             db3 = redis_ack 3000 ''job_a'' None db2
         in (redis_getJob ''job_a'' db1 = Some job_a
             \<and> redis_getJob ''job_a'' db2 = None \<and> hashes db2 ''job_a'' = None
             \<and> hashes db3 ''job_a'' = Some (StatusHash completed 3000))))"
  by (simp add: empty_redis_def redis_enqueue_def redis_ack_def deleteAfterAck_of_def
      hSet_status_def redis_getJob_def hGetAll_job_def job_a_def new_job_def meta_opts_def Let_def)

section \<open>The dequeue loops\<close>


lemma findOne_sort_None: "findOne_sort P k xs = None \<longleftrightarrow> filter P xs = []"
  by (auto simp: findOne_sort_def split: list.splits) (metis length_sort list.size(3) length_0_conv)+

lemma findOne_sort_SomeD:
  assumes "findOne_sort P k xs = Some c"
  shows "c \<in> set xs" "P c" "\<And>d. d \<in> set xs \<Longrightarrow> P d \<Longrightarrow> k c \<le> k d"
proof -
  from assms obtain rest where srt: "sort_key k (filter P xs) = c # rest"
    by (auto simp: findOne_sort_def split: list.splits)
  have "c \<in> set (sort_key k (filter P xs))" by (simp add: srt)
  then show "c \<in> set xs" "P c" by simp_all
  fix d assume "d \<in> set xs" "P d"
  then have "d \<in> set (sort_key k (filter P xs))" by simp
  moreover have "sorted (map k (sort_key k (filter P xs)))" by (rule sorted_sort_key)
  ultimately show "k c \<le> k d" by (auto simp: srt)
qed

lemma updateOne_by_id:
  assumes "distinct (map job_id xs)" "c \<in> set xs" "P c" "\<And>d. P d \<Longrightarrow> job_id d = job_id c"
  shows "updateOne P f xs = upd (job_id c) f xs"
  using assms
proof (induction xs)
  case Nil
  show ?case by (simp add: upd_def)
next
  case (Cons x xs)
  show ?case
  proof (cases "P x")
    case True
    then have "job_id x = job_id c" by (rule Cons.prems(4))
    moreover from this Cons.prems(1) have "\<forall>d \<in> set xs. job_id d \<noteq> job_id c" by (auto simp: image_iff)
    then have "upd (job_id c) f xs = xs" by (simp add: upd_def map_idI)
    ultimately show ?thesis using True by (simp add: upd_def)
  next
    case False
    with Cons.prems(2,3) have cin: "c \<in> set xs" by auto
    with Cons.prems(1) have "job_id x \<noteq> job_id c" by (auto simp: image_iff)
    moreover have "updateOne P f xs = upd (job_id c) f xs"
    proof (rule Cons.IH)
      show "distinct (map job_id xs)" using Cons.prems(1) by simp
    qed (fact cin Cons.prems(3) Cons.prems(4))+
    ultimately show ?thesis using False by (simp add: upd_def)
  qed
qed

lemma findOne_by_id:
  assumes "distinct (map job_id xs)" "c \<in> set xs" "P c" "\<And>d. P d \<Longrightarrow> job_id d = job_id c"
  shows "findOne P xs = Some c"
  using assms
proof (induction xs)
  case Nil
  show ?case using Nil.prems(2) by simp
next
  case (Cons x xs)
  show ?case
  proof (cases "P x")
    case True
    then have "job_id x = job_id c" by (rule Cons.prems(4))
    with Cons.prems(1,2) have "x = c" by (auto simp: image_iff)
    then show ?thesis using True by (simp add: findOne_def)
  next
    case False
    with Cons.prems(2,3) have cin: "c \<in> set xs" by auto
    have "findOne P xs = Some c"
    proof (rule Cons.IH)
      show "distinct (map job_id xs)" using Cons.prems(1) by simp
    qed (fact cin Cons.prems(3) Cons.prems(4))+
    then show ?thesis using False by (simp add: findOne_def)
  qed
qed

lemma map_job_id_upd: "(\<And>d. job_id (f d) = job_id d) \<Longrightarrow> map job_id (upd a f xs) = map job_id xs"
  by (simp add: upd_def)

lemma job_id_mark_failed [simp]: "job_id (mark_failed t d) = job_id d"
  by (simp add: mark_failed_def)

lemma job_id_claim_job [simp]: "job_id (claim_job t l d) = job_id d"
  by (simp add: claim_job_def)

text \<open>One round of the loop, in a collection with distinct ids.\<close>

lemma mongodb_dequeue_loop_Suc:
  assumes "distinct (map job_id coll)"
  shows "mongodb_dequeue_loop (Suc n) q t l coll acc =
     (case findOne_sort (mongodb_candidate q t) createdAt coll of
        None \<Rightarrow> (acc, coll)
      | Some c \<Rightarrow>
          if attempts c \<ge> maxAttempts c
          then mongodb_dequeue_loop n q t l (upd (job_id c) (mark_failed t) coll) acc
          else mongodb_dequeue_loop n q t l (upd (job_id c) (claim_job t l) coll) (acc @ [claim_job t l c]))"
proof (cases "findOne_sort (mongodb_candidate q t) createdAt coll")
  case None
  then show ?thesis by simp
next
  case (Some c)
  note c = findOne_sort_SomeD [OF Some]
  have u1: "updateOne (\<lambda>d. job_id d = job_id c) f coll = upd (job_id c) f coll" for f
    using assms c(1) by (intro updateOne_by_id) simp_all
  have pc: "job_id c = job_id c \<and> status c = pending \<and> lockedUntil c < t"
    using c(2) by (simp add: mongodb_candidate_def)
  have u2: "updateOne (\<lambda>d. job_id d = job_id c \<and> status d = pending \<and> lockedUntil d < t) f coll
      = upd (job_id c) f coll" for f
    using assms c(1) pc by (intro updateOne_by_id) simp_all
  have f2: "findOne (\<lambda>d. job_id d = job_id c \<and> status d = pending \<and> lockedUntil d < t) coll = Some c"
    using assms c(1) pc by (intro findOne_by_id) simp_all
  show ?thesis
    using Some by (simp add: u1 u2 f2 findOneAndUpdate_def)
qed

lemma not_candidate_mark_failed [simp]: "\<not> mongodb_candidate q t (mark_failed t' d)"
  by (simp add: mongodb_candidate_def mark_failed_def)

lemma not_candidate_claim_job [simp]: "\<not> mongodb_candidate q t (claim_job t' l d)"
  by (simp add: mongodb_candidate_def claim_job_def)

lemma filter_upd:
  assumes "\<And>d. \<not> P (f d)"
  shows "filter P (upd a f xs) = filter (\<lambda>d. job_id d \<noteq> a) (filter P xs)"
  using assms by (induction xs) (auto simp: upd_def)

lemma upd_same: "d \<in> set coll \<Longrightarrow> job_id d = a \<Longrightarrow> f d \<in> set (upd a f coll)"
  by (force simp: upd_def)

lemma distinct_same_id:
  "distinct (map k xs) \<Longrightarrow> a \<in> set xs \<Longrightarrow> b \<in> set xs \<Longrightarrow> k a = k b \<Longrightarrow> a = b"
  by (meson distinct_map inj_onD)

lemma createdAt_claim_job [simp]: "createdAt (claim_job t l d) = createdAt d"
  by (simp add: claim_job_def)

lemma distinct_map_sort_key: "distinct (map f xs) \<Longrightarrow> distinct (map f (sort_key k xs))"
  by (simp add: distinct_map)

lemma mongodb_dequeue_loop_result:
  assumes "distinct (map job_id coll)"
  shows "fst (mongodb_dequeue_loop n q t l coll acc)
     = acc @ map (claim_job t l)
         (filter (\<lambda>d. attempts d < maxAttempts d)
            (take n (sort_key createdAt (filter (mongodb_candidate q t) coll))))"
  using assms
proof (induction n arbitrary: coll acc)
  case 0
  then show ?case by simp
next
  case (Suc n)
  let ?ys = "filter (mongodb_candidate q t) coll"
  show ?case
  proof (cases "findOne_sort (mongodb_candidate q t) createdAt coll")
    case None
    then have "?ys = []" by (simp add: findOne_sort_None)
    then show ?thesis using None by simp
  next
    case (Some c)
    from Some obtain rest where srt: "sort_key createdAt ?ys = c # rest"
      by (auto simp: findOne_sort_def split: list.splits)
    have "distinct (map job_id (sort_key createdAt ?ys))"
      using Suc.prems by (intro distinct_map_sort_key distinct_map_filter)
    then have "\<forall>d \<in> set rest. job_id d \<noteq> job_id c"
      unfolding srt by (auto simp: image_iff)
    then have fr: "filter (\<lambda>d. job_id d \<noteq> job_id c) rest = rest" by simp
    have rest: "sort_key createdAt (filter (mongodb_candidate q t) (upd (job_id c) f coll)) = rest"
      if "\<And>d. \<not> mongodb_candidate q t (f d)" for f
    proof -
      have "sort_key createdAt (filter (mongodb_candidate q t) (upd (job_id c) f coll))
          = filter (\<lambda>d. job_id d \<noteq> job_id c) (sort_key createdAt ?ys)"
        using that by (simp add: filter_upd filter_sort)
      also have "\<dots> = rest" by (simp add: srt fr)
      finally show ?thesis .
    qed
    show ?thesis
    proof (cases "attempts c \<ge> maxAttempts c")
      case True
      let ?coll = "upd (job_id c) (mark_failed t) coll"
      have d': "distinct (map job_id ?coll)" using Suc.prems by (simp add: map_job_id_upd)
      have "fst (mongodb_dequeue_loop (Suc n) q t l coll acc)
          = fst (mongodb_dequeue_loop n q t l ?coll acc)"
        using Some True Suc.prems by (simp add: mongodb_dequeue_loop_Suc del: mongodb_dequeue_loop.simps)
      also have "\<dots> = acc @ map (claim_job t l) (filter (\<lambda>d. attempts d < maxAttempts d) (take n rest))"
        using Suc.IH [OF d'] rest [of "mark_failed t"] by simp
      finally show ?thesis using True by (simp add: srt)
    next
      case False
      let ?coll = "upd (job_id c) (claim_job t l) coll"
      have d': "distinct (map job_id ?coll)" using Suc.prems by (simp add: map_job_id_upd)
      have "fst (mongodb_dequeue_loop (Suc n) q t l coll acc)
          = fst (mongodb_dequeue_loop n q t l ?coll (acc @ [claim_job t l c]))"
        using Some False Suc.prems by (simp add: mongodb_dequeue_loop_Suc del: mongodb_dequeue_loop.simps)
      also have "\<dots> = (acc @ [claim_job t l c])
            @ map (claim_job t l) (filter (\<lambda>d. attempts d < maxAttempts d) (take n rest))"
        using Suc.IH [OF d'] rest [of "claim_job t l"] by simp
      finally show ?thesis using False by (simp add: srt)
    qed
  qed
qed


lemma filter_same_id:
  "distinct (map k xs) \<Longrightarrow> j \<in> set xs \<Longrightarrow> filter (\<lambda>r. k r = k j) xs = [j]"
proof (induction xs)
  case Nil
  then show ?case by simp
next
  case (Cons x xs)
  show ?case
  proof (cases "x = j")
    case True
    with Cons.prems(1) have "\<forall>r \<in> set xs. k r \<noteq> k j" by (auto simp: image_iff)
    then have "filter (\<lambda>r. k r = k j) xs = []" by (simp add: filter_empty_conv)
    with True show ?thesis by simp
  next
    case False
    with Cons.prems(2) have jin: "j \<in> set xs" by simp
    with Cons.prems(1) have "k x \<noteq> k j" by (auto simp: image_iff)
    then show ?thesis using Cons.IH Cons.prems(1) jin by simp
  qed
qed

lemma filter_id_update_where:
  assumes "\<And>r. k (f r) = k r"
  shows "filter (\<lambda>r. k r = a) (update_where P f rows) = update_where P f (filter (\<lambda>r. k r = a) rows)"
  using assms by (induction rows) (auto simp: update_where_def)

lemma drizzle_dequeue_exhausted:
  assumes dist: "distinct (map job_id (jobs db))" and jin: "j \<in> set (jobs db)"
    and ex: "attempts j \<ge> maxAttempts j"
  shows "job_id j \<notin> job_id ` set (fst (drizzle_dequeue t q opts db))"
    and "drizzle_getJob (job_id j) (snd (drizzle_dequeue t q opts db)) = Some j"
proof -
  let ?av = "take (limit_of opts) (sort_key createdAt (filter (drizzle_available q t) (jobs db)))"
  let ?P = "\<lambda>r. job_id r \<in> set (map job_id ?av)"
  have sub: "set ?av \<subseteq> set (filter (drizzle_available q t) (jobs db))"
    using set_take_subset [of "limit_of opts" "sort_key createdAt (filter (drizzle_available q t) (jobs db))"]
    by simp
  have notP: "\<not> ?P j"
  proof
    assume "?P j"
    then obtain a where a: "a \<in> set ?av" "job_id a = job_id j" by auto
    with sub have "a \<in> set (jobs db)" "drizzle_available q t a" by auto
    with a(2) dist jin have "a = j" using distinct_same_id [of job_id "jobs db" a j] by simp
    with \<open>drizzle_available q t a\<close> ex show False by (simp add: drizzle_available_def)
  qed
  have one: "filter (\<lambda>r. job_id r = job_id j) (jobs db) = [j]"
    using dist jin by (rule filter_same_id)
  have upd: "filter (\<lambda>r. job_id r = job_id j) (update_where ?P f (jobs db)) = [j]"
    if "\<And>r. job_id (f r) = job_id r" for f
  proof -
    have "filter (\<lambda>r. job_id r = job_id j) (update_where ?P f (jobs db))
        = update_where ?P f (filter (\<lambda>r. job_id r = job_id j) (jobs db))"
      by (rule filter_id_update_where) (rule that)
    also have "\<dots> = update_where ?P f [j]" by (simp only: one)
    also have "\<dots> = [j]" using notP by (simp add: update_where_def)
    finally show ?thesis .
  qed
  show "job_id j \<notin> job_id ` set (fst (drizzle_dequeue t q opts db))"
    using notP by (auto simp: drizzle_dequeue_def Let_def update_where_def split: if_splits)
  show "drizzle_getJob (job_id j) (snd (drizzle_dequeue t q opts db)) = Some j"
    using one upd [of "claim_job t (t + visibilityTimeoutMs_of opts)"]
    by (simp add: drizzle_dequeue_def drizzle_getJob_def Let_def)
qed

lemma redis_dequeue_loop_exhausted:
  assumes "hashes db k = Some (JobHash j)" "attempts j \<ge> maxAttempts j"
    and "\<forall>a \<in> set acc. job_id a \<noteq> k"
  shows "hashes (snd (redis_dequeue_loop cands n q t l db acc)) k = Some (JobHash j)
     \<and> (\<forall>a \<in> set (fst (redis_dequeue_loop cands n q t l db acc)). job_id a \<noteq> k)"
  using assms
proof (induction cands arbitrary: db acc)
  case Nil
  then show ?case by simp
next
  case (Cons jobId rest)
  show ?case
  proof (cases "length acc \<ge> n")
    case True
    then show ?thesis using Cons.prems by simp
  next
    case False
    show ?thesis
    proof (cases "hGetAll_job db jobId")
      case None
      then show ?thesis using False Cons.IH [OF Cons.prems] by simp
    next
      case (Some jobData)
      show ?thesis
      proof (cases "attempts jobData \<ge> maxAttempts jobData \<or> lockedUntil jobData \<ge> t")
        case True
        then show ?thesis using False Some Cons.IH [OF Cons.prems] by simp
      next
        case nskip: False
        have ne: "jobId \<noteq> k"
        proof
          assume "jobId = k"
          with Some Cons.prems(1) have "jobData = j"
            by (auto simp: hGetAll_job_def split: if_splits)
          with nskip Cons.prems(2) show False by simp
        qed
        let ?db = "db\<lparr>hashes := (hashes db)(jobId \<mapsto> JobHash (claim_job t l jobData)),
                  pendingSet := (pendingSet db)(q := zRem jobId (pendingSet db q)),
                  processingSet := (processingSet db)(q := zAdd l jobId (processingSet db q))\<rparr>"
        let ?acc = "acc @ [(claim_job t l jobData)\<lparr>job_id := jobId, queue := q\<rparr>]"
        have "hashes ?db k = Some (JobHash j)" using ne Cons.prems(1) by simp
        moreover have "\<forall>a \<in> set ?acc. job_id a \<noteq> k" using ne Cons.prems(3) by simp
        ultimately have "hashes (snd (redis_dequeue_loop rest n q t l ?db ?acc)) k = Some (JobHash j)
           \<and> (\<forall>a \<in> set (fst (redis_dequeue_loop rest n q t l ?db ?acc)). job_id a \<noteq> k)"
          using Cons.prems(2) by (intro Cons.IH)
        then show ?thesis using False Some nskip by simp
      qed
    qed
  qed
qed

lemma redis_dequeue_exhausted:
  assumes "redis_getJob k db = Some j" "attempts j \<ge> maxAttempts j"
  shows "k \<notin> job_id ` set (fst (redis_dequeue t q opts db))"
    and "redis_getJob k (snd (redis_dequeue t q opts db)) = Some j"
proof -
  from assms(1) obtain jd where jd: "hashes db k = Some (JobHash jd)" "job_id jd \<noteq> []"
      "j = jd\<lparr>job_id := k\<rparr>"
    by (auto simp: redis_getJob_def hGetAll_job_def split: option.splits redis_hash.splits if_splits)
  then have ex: "attempts jd \<ge> maxAttempts jd" using assms(2) by simp
  let ?r = "redis_dequeue t q opts db"
  have "hashes (snd ?r) k = Some (JobHash jd) \<and> (\<forall>a \<in> set (fst ?r). job_id a \<noteq> k)"
    unfolding redis_dequeue_def Let_def
    by (rule redis_dequeue_loop_exhausted [OF jd(1) ex]) simp
  then show "k \<notin> job_id ` set (fst ?r)" "redis_getJob k (snd ?r) = Some j"
    using jd(2,3) by (auto simp: redis_getJob_def hGetAll_job_def)
qed

lemma mongodb_dequeue_fst:
  "fst (mongodb_dequeue t q opts db)
     = fst (mongodb_dequeue_loop (limit_of opts) q t (t + visibilityTimeoutMs_of opts) (jobsCollection db) [])"
  by (simp add: mongodb_dequeue_def Let_def split: prod.splits)

lemma mongodb_dequeue_snd:
  "jobsCollection (snd (mongodb_dequeue t q opts db))
     = snd (mongodb_dequeue_loop (limit_of opts) q t (t + visibilityTimeoutMs_of opts) (jobsCollection db) [])"
  by (simp add: mongodb_dequeue_def Let_def split: prod.splits)

lemma job_id_dequeue_step [simp]: "job_id (dequeue_step t l d) = job_id d"
  by (simp add: dequeue_step_def)

lemma upd_upd_ids:
  assumes "\<And>d. job_id (f d) = job_id d" "a \<notin> A"
  shows "map (\<lambda>d. if job_id d \<in> A then f d else d) (upd a f coll)
       = map (\<lambda>d. if job_id d \<in> insert a A then f d else d) coll"
  using assms by (induction coll) (auto simp: upd_def)

lemma upd_cong_at:
  assumes "distinct (map job_id coll)" "c \<in> set coll" "f c = g c"
  shows "upd (job_id c) f coll = upd (job_id c) g coll"
proof -
  have "d = c" if "d \<in> set coll" "job_id d = job_id c" for d
    using distinct_same_id [OF assms(1) that(1) assms(2)] that(2) by simp
  then show ?thesis
    using assms(3) by (auto simp: upd_def)
qed

lemma mongodb_dequeue_loop_store:
  assumes "distinct (map job_id coll)"
  shows "snd (mongodb_dequeue_loop n q t l coll acc)
     = map (\<lambda>d. if job_id d \<in> job_id ` set (take n (sort_key createdAt (filter (mongodb_candidate q t) coll)))
                 then dequeue_step t l d else d) coll"
  using assms
proof (induction n arbitrary: coll acc)
  case 0
  then show ?case by simp
next
  case (Suc n)
  let ?ys = "filter (mongodb_candidate q t) coll"
  show ?case
  proof (cases "findOne_sort (mongodb_candidate q t) createdAt coll")
    case None
    then have "?ys = []" by (simp add: findOne_sort_None)
    then show ?thesis using None by simp
  next
    case (Some c)
    note c = findOne_sort_SomeD [OF Some]
    from Some obtain rest where srt: "sort_key createdAt ?ys = c # rest"
      by (auto simp: findOne_sort_def split: list.splits)
    have "distinct (map job_id (sort_key createdAt ?ys))"
      using Suc.prems by (intro distinct_map_sort_key distinct_map_filter)
    then have nr: "\<forall>d \<in> set rest. job_id d \<noteq> job_id c"
      unfolding srt by (auto simp: image_iff)
    then have fr: "filter (\<lambda>d. job_id d \<noteq> job_id c) rest = rest" by simp
    let ?coll = "upd (job_id c) (dequeue_step t l) coll"
    have nc: "\<not> mongodb_candidate q t (dequeue_step t l d)" for d
      by (simp add: dequeue_step_def)
    have "sort_key createdAt (filter (mongodb_candidate q t) ?coll)
        = filter (\<lambda>d. job_id d \<noteq> job_id c) (sort_key createdAt ?ys)"
      using nc by (simp add: filter_upd filter_sort)
    also have "\<dots> = rest" by (simp add: srt fr)
    finally have rest: "sort_key createdAt (filter (mongodb_candidate q t) ?coll) = rest" .
    have d': "distinct (map job_id ?coll)" using Suc.prems by (simp add: map_job_id_upd)
    have notin: "job_id c \<notin> job_id ` set (take n rest)"
      using nr by (auto dest: in_set_takeD)
    have step: "\<exists>acc'. mongodb_dequeue_loop (Suc n) q t l coll acc = mongodb_dequeue_loop n q t l ?coll acc'"
    proof (cases "attempts c \<ge> maxAttempts c")
      case True
      have "upd (job_id c) (mark_failed t) coll = ?coll"
        using Suc.prems c(1) True by (intro upd_cong_at) (simp_all add: dequeue_step_def)
      then have "mongodb_dequeue_loop (Suc n) q t l coll acc = mongodb_dequeue_loop n q t l ?coll acc"
        using Some True Suc.prems by (simp add: mongodb_dequeue_loop_Suc del: mongodb_dequeue_loop.simps)
      then show ?thesis ..
    next
      case False
      have "upd (job_id c) (claim_job t l) coll = ?coll"
        using Suc.prems c(1) False by (intro upd_cong_at) (simp_all add: dequeue_step_def)
      then have "mongodb_dequeue_loop (Suc n) q t l coll acc
          = mongodb_dequeue_loop n q t l ?coll (acc @ [claim_job t l c])"
        using Some False Suc.prems by (simp add: mongodb_dequeue_loop_Suc del: mongodb_dequeue_loop.simps)
      then show ?thesis ..
    qed
    then obtain acc' where "mongodb_dequeue_loop (Suc n) q t l coll acc = mongodb_dequeue_loop n q t l ?coll acc'" ..
    then have "snd (mongodb_dequeue_loop (Suc n) q t l coll acc)
        = map (\<lambda>d. if job_id d \<in> job_id ` set (take n rest) then dequeue_step t l d else d) ?coll"
      using Suc.IH [OF d', of acc'] rest by simp
    also have "\<dots> = map (\<lambda>d. if job_id d \<in> insert (job_id c) (job_id ` set (take n rest))
                 then dequeue_step t l d else d) coll"
      using notin by (intro upd_upd_ids) simp_all
    finally show ?thesis by (simp add: srt)
  qed
qed

lemma findOne_map_same_id:
  assumes "distinct (map job_id coll)" "j \<in> set coll" "\<And>d. job_id (g d) = job_id d"
  shows "findOne (\<lambda>d. job_id d = job_id j) (map g coll) = Some (g j)"
proof (rule findOne_by_id)
  show "distinct (map job_id (map g coll))" using assms(1,3) by (simp add: comp_def)
  show "g j \<in> set (map g coll)" using assms(2) by simp
  show "job_id (g j) = job_id j" by (rule assms(3))
  show "\<And>d. job_id d = job_id j \<Longrightarrow> job_id d = job_id (g j)" by (simp add: assms(3))
qed

lemma mongodb_dequeue_getJob:
  assumes dist: "distinct (map job_id (jobsCollection db))" and jin: "j \<in> set (jobsCollection db)"
  shows "mongodb_getJob (job_id j) (snd (mongodb_dequeue t q opts db))
     = Some (if j \<in> set (take (limit_of opts)
                          (sort_key createdAt (filter (mongodb_candidate q t) (jobsCollection db))))
             then dequeue_step t (t + visibilityTimeoutMs_of opts) j else j)"
proof -
  let ?S = "take (limit_of opts) (sort_key createdAt (filter (mongodb_candidate q t) (jobsCollection db)))"
  let ?g = "\<lambda>d. if job_id d \<in> job_id ` set ?S then dequeue_step t (t + visibilityTimeoutMs_of opts) d else d"
  have sub: "set ?S \<subseteq> set (jobsCollection db)"
    using set_take_subset [of "limit_of opts" "sort_key createdAt (filter (mongodb_candidate q t) (jobsCollection db))"]
    by auto
  have iff: "job_id j \<in> job_id ` set ?S \<longleftrightarrow> j \<in> set ?S"
  proof
    assume "job_id j \<in> job_id ` set ?S"
    then obtain d where d: "d \<in> set ?S" "job_id d = job_id j" by auto
    with sub have "d \<in> set (jobsCollection db)" by auto
    then have "d = j" using distinct_same_id [OF dist _ jin] d(2) by simp
    with d(1) show "j \<in> set ?S" by simp
  qed auto
  have "mongodb_getJob (job_id j) (snd (mongodb_dequeue t q opts db))
      = findOne (\<lambda>d. job_id d = job_id j) (map ?g (jobsCollection db))"
    by (simp add: mongodb_getJob_def mongodb_dequeue_snd mongodb_dequeue_loop_store [OF dist])
  also have "\<dots> = Some (?g j)"
    using dist jin by (rule findOne_map_same_id) simp
  finally show ?thesis by (simp add: iff)
qed


lemma mongodb_dequeue_not_returned:
  assumes dist: "distinct (map job_id (jobsCollection db))" and jin: "j \<in> set (jobsCollection db)"
    and ex: "maxAttempts j \<le> attempts j"
  shows "job_id j \<notin> job_id ` set (fst (mongodb_dequeue t q opts db))"
proof
  let ?S = "take (limit_of opts) (sort_key createdAt (filter (mongodb_candidate q t) (jobsCollection db)))"
  assume "job_id j \<in> job_id ` set (fst (mongodb_dequeue t q opts db))"
  then have "job_id j \<in> job_id ` set (filter (\<lambda>d. attempts d < maxAttempts d) ?S)"
    using mongodb_dequeue_loop_result [OF dist, of "limit_of opts" q t _ "[]"]
    by (auto simp: mongodb_dequeue_fst)
  then obtain d where d: "d \<in> set ?S" "attempts d < maxAttempts d" "job_id d = job_id j" by auto
  from d(1) have "d \<in> set (sort_key createdAt (filter (mongodb_candidate q t) (jobsCollection db)))"
    by (rule in_set_takeD)
  then have "d \<in> set (jobsCollection db)" by simp
  then have "d = j" using distinct_same_id [OF dist _ jin] d(3) by simp
  with d(2) ex show False by simp
qed

section \<open>Jobs without attempts left\<close>

text \<open>
  C3, as the spec states it, fails in the MongoDB adapter: its claim path marks the job
  failed. A job enqueued with \<open>maxAttempts = 1\<close> is claimed at 2000 and requeued by a
  nack at 3000, so it is pending with \<open>attempts = maxAttempts = 1\<close>; the dequeue at 4000
  returns nothing and leaves the job with \<open>status = failed\<close>.
\<close>

theorem mongodb_dequeue_fails_exhausted_job:
  "(case mongodb_enqueue ''job_a'' 1000 1000 ''q'' ''{}''
           (Some \<lparr>opt_jobId = None, opt_delayMs = None, opt_maxAttempts = Some 1,
                  opt_overwrite = None, opt_meta = None\<rparr>) empty_mongo of
      Inl e \<Rightarrow> None
    | Inr (j, db1) \<Rightarrow>
        (let (js2, db2) = mongodb_dequeue 2000 ''q'' None db1;
             db3 = mongodb_nack 3000 ''job_a'' None db2;
             (js4, db4) = mongodb_dequeue 4000 ''q'' None db3
         in Some (map_option (\<lambda>j. (status j, attempts j, maxAttempts j)) (mongodb_getJob ''job_a'' db3),
                  map job_id js4,
                  map_option status (mongodb_getJob ''job_a'' db4))))
   = Some (Some (pending, 1, 1), [], Some failed)"
  by code_simp

text \<open>
  C3, amended. A job of the store whose \<open>attempts\<close> has reached \<open>maxAttempts\<close> is never
  among the jobs a dequeue returns, in any of the three adapters (ids being unique in the
  MongoDB collection and the Drizzle table). The Drizzle and the Redis adapter leave the
  job exactly as it was. The MongoDB adapter sets its \<open>status\<close> to failed and its
  \<open>updatedAt\<close> to the current time when the job is among the \<open>limit\<close> oldest pending,
  visible, unlocked jobs of the queue, and leaves it exactly as it was otherwise.
\<close>

theorem dequeue_skips_exhausted_job:
  "(distinct (map job_id (jobsCollection mdb)) \<and> j \<in> set (jobsCollection mdb)
      \<and> maxAttempts j \<le> attempts j \<longrightarrow>
      job_id j \<notin> job_id ` set (fst (mongodb_dequeue t q opts mdb))
      \<and> mongodb_getJob (job_id j) (snd (mongodb_dequeue t q opts mdb))
          = Some (if j \<in> set (take (limit_of opts)
                     (sort_key createdAt (filter (mongodb_candidate q t) (jobsCollection mdb))))
                  then j\<lparr>status := failed, updatedAt := t\<rparr> else j))
   \<and> (distinct (map job_id (jobs ddb)) \<and> j \<in> set (jobs ddb) \<and> maxAttempts j \<le> attempts j \<longrightarrow>
      job_id j \<notin> job_id ` set (fst (drizzle_dequeue t q opts ddb))
      \<and> drizzle_getJob (job_id j) (snd (drizzle_dequeue t q opts ddb)) = Some j)
   \<and> (redis_getJob k rdb = Some j \<and> maxAttempts j \<le> attempts j \<longrightarrow>
      k \<notin> job_id ` set (fst (redis_dequeue t q opts rdb))
      \<and> redis_getJob k (snd (redis_dequeue t q opts rdb)) = Some j)"
proof (intro conjI impI)
  assume a: "distinct (map job_id (jobsCollection mdb)) \<and> j \<in> set (jobsCollection mdb)
      \<and> maxAttempts j \<le> attempts j"
  then show "job_id j \<notin> job_id ` set (fst (mongodb_dequeue t q opts mdb))"
    using mongodb_dequeue_not_returned [of mdb j] by simp
  from a show "mongodb_getJob (job_id j) (snd (mongodb_dequeue t q opts mdb))
          = Some (if j \<in> set (take (limit_of opts)
                     (sort_key createdAt (filter (mongodb_candidate q t) (jobsCollection mdb))))
                  then j\<lparr>status := failed, updatedAt := t\<rparr> else j)"
    using mongodb_dequeue_getJob [of mdb j t q opts]
    by (simp add: dequeue_step_def mark_failed_def)
next
  assume a: "distinct (map job_id (jobs ddb)) \<and> j \<in> set (jobs ddb) \<and> maxAttempts j \<le> attempts j"
  then show "job_id j \<notin> job_id ` set (fst (drizzle_dequeue t q opts ddb))"
    using drizzle_dequeue_exhausted(1) [of ddb j] by simp
  from a show "drizzle_getJob (job_id j) (snd (drizzle_dequeue t q opts ddb)) = Some j"
    using drizzle_dequeue_exhausted(2) [of ddb j] by simp
next
  assume a: "redis_getJob k rdb = Some j \<and> maxAttempts j \<le> attempts j"
  then show "k \<notin> job_id ` set (fst (redis_dequeue t q opts rdb))"
    using redis_dequeue_exhausted(1) [of k rdb j] by simp
  from a show "redis_getJob k (snd (redis_dequeue t q opts rdb)) = Some j"
    using redis_dequeue_exhausted(2) [of k rdb j] by simp
qed

theorem dequeue_skips_exhausted_job_witness:
  "''job_a'' \<notin> job_id ` set (fst (mongodb_dequeue 4000 ''q'' None \<lparr>jobsCollection = [spent_a], logsCollection = []\<rparr>))
   \<and> mongodb_getJob ''job_a'' (snd (mongodb_dequeue 4000 ''q'' None \<lparr>jobsCollection = [spent_a], logsCollection = []\<rparr>))
       = Some (spent_a\<lparr>status := failed, updatedAt := 4000\<rparr>)
   \<and> ''job_a'' \<notin> job_id ` set (fst (drizzle_dequeue 4000 ''q'' None \<lparr>jobs = [spent_a], jobLogs = []\<rparr>))
   \<and> drizzle_getJob ''job_a'' (snd (drizzle_dequeue 4000 ''q'' None \<lparr>jobs = [spent_a], jobLogs = []\<rparr>))
       = Some spent_a
   \<and> ''job_a'' \<notin> job_id ` set (fst (redis_dequeue 4000 ''q'' None
          (empty_redis\<lparr>hashes := (\<lambda>k. if k = ''job_a'' then Some (JobHash spent_a) else None),
                       pendingSet := (\<lambda>k. if k = ''q'' then [(''job_a'', 3000)] else [])\<rparr>)))
   \<and> redis_getJob ''job_a'' (snd (redis_dequeue 4000 ''q'' None
          (empty_redis\<lparr>hashes := (\<lambda>k. if k = ''job_a'' then Some (JobHash spent_a) else None),
                       pendingSet := (\<lambda>k. if k = ''q'' then [(''job_a'', 3000)] else [])\<rparr>)))
       = Some spent_a"
proof -
  have id: "job_id spent_a = ''job_a''" and ex: "maxAttempts spent_a \<le> attempts spent_a"
    and cand: "mongodb_candidate ''q'' 4000 spent_a"
    by (simp_all add: spent_a_def requeue_job_def claim_job_def new_job_def meta_opts_def mongodb_candidate_def)
  have r: "redis_getJob ''job_a'' (empty_redis\<lparr>hashes := (\<lambda>k. if k = ''job_a'' then Some (JobHash spent_a) else None),
                       pendingSet := (\<lambda>k. if k = ''q'' then [(''job_a'', 3000)] else [])\<rparr>) = Some spent_a"
    by (simp add: redis_getJob_def hGetAll_job_def id)
  show ?thesis
    using dequeue_skips_exhausted_job [of "\<lparr>jobsCollection = [spent_a], logsCollection = []\<rparr>" spent_a
        4000 "''q''" None "\<lparr>jobs = [spent_a], jobLogs = []\<rparr>" "''job_a''"
        "empty_redis\<lparr>hashes := (\<lambda>k. if k = ''job_a'' then Some (JobHash spent_a) else None),
                       pendingSet := (\<lambda>k. if k = ''q'' then [(''job_a'', 3000)] else [])\<rparr>"]
      id ex cand r
    by (simp add: limit_of_def)
qed



section \<open>The order of the claimed jobs\<close>








section \<open>The worker and a handler that throws\<close>

lemma dispatch_when_handler_throws:
  assumes "run_handler ad e job (fst (handler job)) (snd (handler job)) w = (True, w1)"
  shows "dispatch ad e handler job w =
     call_logEvent ad e (job_id job) ''nack''
       (Some (stringify e (Some \<lparr>requeue = Some True, delayMs = None\<rparr>)))
       (call_nack ad e (job_id job) (Some \<lparr>requeue = Some True, delayMs = None\<rparr>)
          (w1\<lparr>sink := sink w1 @ [(''handler_error'', job_id job)]\<rparr>))"
  using assms by (simp add: dispatch_def ctx_nack_def)

lemma mongodb_dequeue_one:
  assumes dist: "distinct (map job_id (jobsCollection db))"
    and cand: "findOne_sort (mongodb_candidate q t) createdAt (jobsCollection db) = Some j"
    and left: "attempts j < maxAttempts j"
    and one: "limit_of opts = 1"
  shows "mongodb_dequeue t q opts db =
     ([claim_job t (t + visibilityTimeoutMs_of opts) j],
      db\<lparr>jobsCollection := upd (job_id j) (claim_job t (t + visibilityTimeoutMs_of opts)) (jobsCollection db)\<rparr>)"
proof -
  have "mongodb_dequeue_loop (Suc 0) q t (t + visibilityTimeoutMs_of opts) (jobsCollection db) []
      = ([claim_job t (t + visibilityTimeoutMs_of opts) j],
         upd (job_id j) (claim_job t (t + visibilityTimeoutMs_of opts)) (jobsCollection db))"
    using cand left by (simp add: mongodb_dequeue_loop_Suc [OF dist] del: mongodb_dequeue_loop.simps(2))
  then show ?thesis by (simp add: mongodb_dequeue_def one Let_def)
qed

lemma findOne_upd_same:
  assumes "distinct (map job_id coll)" "j \<in> set coll" "\<And>d. job_id (f d) = job_id d"
  shows "findOne (\<lambda>d. job_id d = job_id j) (upd (job_id j) f coll) = Some (f j)"
proof (rule findOne_by_id)
  show "distinct (map job_id (upd (job_id j) f coll))"
    using assms(1,3) by (simp add: map_job_id_upd)
  show "f j \<in> set (upd (job_id j) f coll)" using assms(2) by (simp add: upd_same)
  show "job_id (f j) = job_id j" by (rule assms(3))
  show "\<And>d. job_id d = job_id j \<Longrightarrow> job_id d = job_id (f j)" by (simp add: assms(3))
qed

lemma mongodb_poll_cycle_throwing:
  fixes w :: "mongo_db world" and e :: env and q :: string and j :: Job
  defines "coll \<equiv> jobsCollection (store w)"
  defines "t0 \<equiv> now_at e (reads w)" and "t1 \<equiv> now_at e (Suc (reads w))"
  assumes dist: "distinct (map job_id coll)"
    and cand: "findOne_sort (mongodb_candidate q t0) createdAt coll = Some j"
    and left: "attempts j < maxAttempts j"
    and fresh: "genId_at e (Suc (Suc (reads w))) \<notin> log_id ` set (logsCollection (store w))"
  defines "w' \<equiv> poll_cycle mongodbAdapter e None [(q, always_throws)] w"
  shows "mongodb_getJob (job_id j) (store w')
       = Some (j\<lparr>status := pending, lockedUntil := 0, visibleAt := t1, updatedAt := t1,
                attempts := attempts j + 1\<rparr>)"
    and "logsCollection (store w') = logsCollection (store w) @ [nack_log e (Suc (Suc (reads w))) j]"
    and "sink w' = sink w @ [(''handler_error'', job_id j)]"
proof -
  let ?cl = "claim_job t0 (t0 + 30000)"
  let ?rq = "requeue_job t1 t1"
  let ?opts = "Some \<lparr>limit = Some (concurrency_of None), visibilityTimeoutMs = Some (visibilityTimeout_of None)\<rparr>"
  note c = findOne_sort_SomeD [OF cand]
  have deq: "mongodb_dequeue t0 q ?opts (store w)
      = ([?cl j], (store w)\<lparr>jobsCollection := upd (job_id j) ?cl coll\<rparr>)"
    using mongodb_dequeue_one [of "store w" q t0 j ?opts] dist cand left
    by (simp add: coll_def limit_of_def concurrency_of_def visibilityTimeoutMs_of_def visibilityTimeout_of_def)
  let ?s1 = "(store w)\<lparr>jobsCollection := upd (job_id j) ?cl coll\<rparr>"
  have f1: "findOne (\<lambda>d. job_id d = job_id j) (upd (job_id j) ?cl coll) = Some (?cl j)"
    using dist c(1) by (intro findOne_upd_same) simp_all
  let ?s2 = "mongodb_nack t1 (job_id j) (Some \<lparr>requeue = Some True, delayMs = None\<rparr>) ?s1"
  have s2: "?s2 = (store w)\<lparr>jobsCollection := updateOne (\<lambda>d. job_id d = job_id j) ?rq (upd (job_id j) ?cl coll)\<rparr>"
    by (simp add: mongodb_nack_def requeue_of_def nack_visibleAt_def)
  have f2: "findOne (\<lambda>d. job_id d = job_id j) (jobsCollection ?s2) = Some (?rq (?cl j))"
    unfolding s2 using f1 by (simp add: findOne_updateOne requeue_job_def)
  have lg: "mongodb_logEvent (genId_at e (Suc (Suc (reads w)))) (now_at e (Suc (Suc (reads w)))) (job_id j) ''nack''
       (Some (stringify e (Some \<lparr>requeue = Some True, delayMs = None\<rparr>))) ?s2
      = Inr (?s2\<lparr>logsCollection := logsCollection (store w) @ [nack_log e (Suc (Suc (reads w))) j]\<rparr>)"
  proof -
    have q: "queue (?rq (?cl j)) = queue j" by (simp add: requeue_job_def claim_job_def)
    have l2: "logsCollection ?s2 = logsCollection (store w)" by (simp add: s2)
    show ?thesis
      unfolding mongodb_logEvent_def f2 using fresh
      by (simp add: insertOne_def l2 q nack_log_def)
  qed
  have w': "w' = w\<lparr>store := ?s2\<lparr>logsCollection := logsCollection (store w) @ [nack_log e (Suc (Suc (reads w))) j]\<rparr>,
      reads := Suc (Suc (Suc (reads w))), sink := sink w @ [(''handler_error'', job_id j)]\<rparr>"
    using deq lg
    by (simp add: w'_def poll_cycle_def poll_queue_def mongodbAdapter_def t0_def [symmetric] Let_def
        dispatch_def always_throws_def ctx_nack_def call_nack_def call_logEvent_def t1_def [symmetric])
  show "mongodb_getJob (job_id j) (store w')
       = Some (j\<lparr>status := pending, lockedUntil := 0, visibleAt := t1, updatedAt := t1,
                attempts := attempts j + 1\<rparr>)"
    using f2 by (simp add: w' mongodb_getJob_def requeue_job_def claim_job_def)
  show "logsCollection (store w') = logsCollection (store w) @ [nack_log e (Suc (Suc (reads w))) j]"
    by (simp add: w')
  show "sink w' = sink w @ [(''handler_error'', job_id j)]"
    by (simp add: w')
qed


lemma drizzle_poll_cycle_throwing:
  fixes w :: "drizzle_db world" and e :: env and q :: string and j :: Job
  defines "rows \<equiv> jobs (store w)"
  defines "t0 \<equiv> now_at e (reads w)" and "t1 \<equiv> now_at e (Suc (reads w))"
  assumes dist: "distinct (map job_id rows)"
    and cand: "take 1 (sort_key createdAt (filter (drizzle_available q t0) rows)) = [j]"
    and fresh: "genId_at e (Suc (Suc (reads w))) \<notin> log_id ` set (jobLogs (store w))"
  defines "w' \<equiv> poll_cycle drizzleAdapter e None [(q, always_throws)] w"
  shows "drizzle_getJob (job_id j) (store w')
       = Some (j\<lparr>status := pending, lockedUntil := 0, visibleAt := t1, updatedAt := t1,
                attempts := attempts j + 1\<rparr>)"
    and "jobLogs (store w') = jobLogs (store w) @ [nack_log e (Suc (Suc (reads w))) j]"
    and "sink w' = sink w @ [(''handler_error'', job_id j)]"
proof -
  let ?cl = "claim_job t0 (t0 + 30000)"
  let ?rq = "requeue_job t1 t1"
  let ?opts = "Some \<lparr>limit = Some (concurrency_of None), visibilityTimeoutMs = Some (visibilityTimeout_of None)\<rparr>"
  let ?P = "\<lambda>r. job_id r = job_id j"
  have "j \<in> set (take 1 (sort_key createdAt (filter (drizzle_available q t0) rows)))"
    unfolding cand by simp
  then have "j \<in> set (sort_key createdAt (filter (drizzle_available q t0) rows))"
    by (rule in_set_takeD)
  then have jin: "j \<in> set rows" by simp
  have one: "filter ?P rows = [j]" using dist jin by (rule filter_same_id)
  let ?rows1 = "update_where ?P ?cl rows"
  have fr1: "filter ?P ?rows1 = [?cl j]"
    by (simp add: filter_update_where one)
  have deq: "drizzle_dequeue t0 q ?opts (store w) = ([?cl j], (store w)\<lparr>jobs := ?rows1\<rparr>)"
    using cand fr1
    by (simp add: drizzle_dequeue_def rows_def [symmetric] limit_of_def concurrency_of_def
        visibilityTimeoutMs_of_def visibilityTimeout_of_def Let_def)
  let ?s1 = "(store w)\<lparr>jobs := ?rows1\<rparr>"
  let ?s2 = "drizzle_nack t1 (job_id j) (Some \<lparr>requeue = Some True, delayMs = None\<rparr>) ?s1"
  have s2: "?s2 = (store w)\<lparr>jobs := update_where ?P ?rq ?rows1\<rparr>"
    by (simp add: drizzle_nack_def requeue_of_def nack_visibleAt_def)
  have fr2: "filter ?P (jobs ?s2) = [?rq (?cl j)]"
    unfolding s2 by (simp add: filter_update_where fr1 requeue_job_def)
  have lg: "drizzle_logEvent (genId_at e (Suc (Suc (reads w)))) (now_at e (Suc (Suc (reads w)))) (job_id j) ''nack''
       (Some (stringify e (Some \<lparr>requeue = Some True, delayMs = None\<rparr>))) ?s2
      = Inr (?s2\<lparr>jobLogs := jobLogs (store w) @ [nack_log e (Suc (Suc (reads w))) j]\<rparr>)"
  proof -
    have q: "queue (?rq (?cl j)) = queue j" by (simp add: requeue_job_def claim_job_def)
    have l2: "jobLogs ?s2 = jobLogs (store w)" by (simp add: s2)
    show ?thesis
      unfolding drizzle_logEvent_def fr2 using fresh
      by (simp add: insert_values_def l2 q nack_log_def)
  qed
  have w': "w' = w\<lparr>store := ?s2\<lparr>jobLogs := jobLogs (store w) @ [nack_log e (Suc (Suc (reads w))) j]\<rparr>,
      reads := Suc (Suc (Suc (reads w))), sink := sink w @ [(''handler_error'', job_id j)]\<rparr>"
    using deq lg
    by (simp add: w'_def poll_cycle_def poll_queue_def drizzleAdapter_def t0_def [symmetric] Let_def
        dispatch_def always_throws_def ctx_nack_def call_nack_def call_logEvent_def t1_def [symmetric])
  show "drizzle_getJob (job_id j) (store w')
       = Some (j\<lparr>status := pending, lockedUntil := 0, visibleAt := t1, updatedAt := t1,
                attempts := attempts j + 1\<rparr>)"
    using fr2 by (simp add: w' drizzle_getJob_def requeue_job_def claim_job_def)
  show "jobLogs (store w') = jobLogs (store w) @ [nack_log e (Suc (Suc (reads w))) j]"
    by (simp add: w')
  show "sink w' = sink w @ [(''handler_error'', job_id j)]"
    by (simp add: w')
qed

lemma redis_dequeue_loop_first:
  assumes "hGetAll_job db k = Some jd" "attempts jd < maxAttempts jd" "lockedUntil jd < t"
  shows "redis_dequeue_loop (k # rest) 1 q t l db [] =
     ([(claim_job t l jd)\<lparr>job_id := k, queue := q\<rparr>],
      db\<lparr>hashes := (hashes db)(k \<mapsto> JobHash (claim_job t l jd)),
         pendingSet := (pendingSet db)(q := zRem k (pendingSet db q)),
         processingSet := (processingSet db)(q := zAdd l k (processingSet db q))\<rparr>)"
  using assms by (cases rest) simp_all

lemma redis_poll_cycle_throwing:
  fixes w :: "redis_db world" and e :: env and q :: string and jd :: Job and k :: string
  defines "t0 \<equiv> now_at e (reads w)" and "t1 \<equiv> now_at e (Suc (reads w))"
  assumes cand: "zRangeByScore (pendingSet (store w) q) 0 t0 2 = k # rest"
    and hash: "hGetAll_job (store w) k = Some jd"
    and left: "attempts jd < maxAttempts jd" and unlocked: "lockedUntil jd < t0"
  defines "w' \<equiv> poll_cycle redisAdapter e None [(q, always_throws)] w"
  shows "redis_getJob k (store w')
       = Some (jd\<lparr>job_id := k, status := pending, lockedUntil := 0, visibleAt := t1, updatedAt := t1,
                attempts := attempts jd + 1\<rparr>)"
    and "redis_getLogs k (store w') = redis_getLogs k (store w) @ [nack_log e (Suc (Suc (reads w))) (jd\<lparr>job_id := k\<rparr>)]"
    and "sink w' = sink w @ [(''handler_error'', k)]"
proof -
  let ?cl = "claim_job t0 (t0 + 30000)"
  let ?rq = "requeue_job t1 t1"
  let ?opts = "Some \<lparr>limit = Some (concurrency_of None), visibilityTimeoutMs = Some (visibilityTimeout_of None)\<rparr>"
  let ?s1 = "(store w)\<lparr>hashes := (hashes (store w))(k \<mapsto> JobHash (?cl jd)),
         pendingSet := (pendingSet (store w))(q := zRem k (pendingSet (store w) q)),
         processingSet := (processingSet (store w))(q := zAdd (t0 + 30000) k (processingSet (store w) q))\<rparr>"
  have idne: "job_id jd \<noteq> []"
    using hash by (auto simp: hGetAll_job_def split: option.splits redis_hash.splits if_splits)
  have deq: "redis_dequeue t0 q ?opts (store w) = ([(?cl jd)\<lparr>job_id := k, queue := q\<rparr>], ?s1)"
    using cand redis_dequeue_loop_first [OF hash left unlocked, of rest q "t0 + 30000"]
    by (simp add: redis_dequeue_def limit_of_def concurrency_of_def
        visibilityTimeoutMs_of_def visibilityTimeout_of_def Let_def)
  have h1: "hGetAll_job ?s1 k = Some (?cl jd)"
    using idne by (simp add: hGetAll_job_def claim_job_def)
  let ?s2 = "redis_nack t1 k (Some \<lparr>requeue = Some True, delayMs = None\<rparr>) ?s1"
  have h2: "hGetAll_job ?s2 k = Some (?rq (?cl jd))"
    using idne by (simp add: redis_nack_def h1 requeue_of_def nack_visibleAt_def Let_def
        hGetAll_job_def requeue_job_def claim_job_def)
  have l2: "logLists ?s2 = logLists (store w)"
    by (simp add: redis_nack_def h1 requeue_of_def Let_def)
  let ?s3 = "redis_logEvent (genId_at e (Suc (Suc (reads w)))) (now_at e (Suc (Suc (reads w)))) k ''nack''
       (Some (stringify e (Some \<lparr>requeue = Some True, delayMs = None\<rparr>))) ?s2"
  have s3: "?s3 = ?s2\<lparr>logLists := (logLists (store w))(k := logLists (store w) k @
        [nack_log e (Suc (Suc (reads w))) (jd\<lparr>job_id := k\<rparr>)])\<rparr>"
    unfolding redis_logEvent_def h2 l2
    by (simp add: nack_log_def requeue_job_def claim_job_def)
  have w': "w' = w\<lparr>store := ?s3, reads := Suc (Suc (Suc (reads w))), sink := sink w @ [(''handler_error'', k)]\<rparr>"
    using deq
    by (simp add: w'_def poll_cycle_def poll_queue_def redisAdapter_def t0_def [symmetric] Let_def
        dispatch_def always_throws_def ctx_nack_def call_nack_def call_logEvent_def t1_def [symmetric])
  have h3: "hGetAll_job ?s3 k = Some (?rq (?cl jd))"
    using h2 unfolding s3 by (simp add: hGetAll_job_def)
  show "redis_getJob k (store w')
       = Some (jd\<lparr>job_id := k, status := pending, lockedUntil := 0, visibleAt := t1, updatedAt := t1,
                attempts := attempts jd + 1\<rparr>)"
    unfolding w' using h3 by (simp add: redis_getJob_def requeue_job_def claim_job_def)
  show "redis_getLogs k (store w') = redis_getLogs k (store w) @ [nack_log e (Suc (Suc (reads w))) (jd\<lparr>job_id := k\<rparr>)]"
    unfolding w' by (simp add: s3 redis_getLogs_def)
  show "sink w' = sink w @ [(''handler_error'', k)]"
    by (simp add: w')
qed


text \<open>
  C2, as the spec states it, fails: no \<open>handler_error\<close> event reaches the audit log. A
  job is enqueued on \<open>q\<close> through the queue facade of the MongoDB adapter and a worker
  with the handler that always throws runs one poll cycle. Afterwards \<open>getJob\<close> shows
  \<open>status = pending\<close> and \<open>attempts = 1\<close>, \<open>getLogs\<close> holds the events \<open>nack\<close> and
  \<open>enqueue\<close> and no \<open>handler_error\<close>; \<open>handler_error\<close> went to the worker's logger.
\<close>

theorem throwing_handler_logs_nack_not_handler_error:
  "(case queue_enqueue mongodbAdapter clock_env ''q'' ''{x:1}'' None
           \<lparr> store = empty_mongo, reads = 0, sink = [] \<rparr> of
      Inl err \<Rightarrow> None
    | Inr (job, w1) \<Rightarrow>
        (let w2 = poll_cycle mongodbAdapter clock_env None [(''q'', always_throws)] w1;
             events = map log_event (getLogs mongodbAdapter (job_id job) (store w2))
         in Some (map_option (\<lambda>j. (status j, attempts j)) (getJob mongodbAdapter (job_id job) (store w2)),
                  events, ''handler_error'' \<in> set events, sink w2)))
   = Some (Some (pending, 1), [''nack'', ''enqueue''], False, [(''handler_error'', ''job_a'')])"
  by code_simp

text \<open>
  C2, amended. Whenever the handler of a job throws, the worker itself reports
  \<open>handler_error\<close> with the job id to its logger and then calls the \<open>nack\<close> of the job's
  context with \<open>{requeue: true}\<close>, that is \<open>adapter.nack\<close> followed by
  \<open>adapter.logEvent(id, "nack", ...)\<close>. Consequently, in each of the three adapters,
  after one poll cycle of a worker with the default options and a handler on \<open>q\<close> that
  always throws, started when the job \<open>j\<close> is the one the dequeue claims (and, for
  MongoDB and Drizzle, the id of the new log entry is fresh): \<open>getJob\<close> shows \<open>j\<close> with
  \<open>status = pending\<close>, the lease cleared, \<open>attempts\<close> incremented by one and \<open>visibleAt\<close>
  and \<open>updatedAt\<close> at the time of the nack; \<open>getLogs\<close> of the job has gained exactly one
  entry, a \<open>nack\<close> event; and the logger has received \<open>handler_error\<close>.
\<close>

theorem throwing_handler_is_requeued:
  "(run_handler ad e job (fst (handler job)) (snd (handler job)) w0 = (True, w1) \<longrightarrow>
      dispatch ad e handler job w0 =
        call_logEvent ad e (job_id job) ''nack''
          (Some (stringify e (Some \<lparr>requeue = Some True, delayMs = None\<rparr>)))
          (call_nack ad e (job_id job) (Some \<lparr>requeue = Some True, delayMs = None\<rparr>)
             (w1\<lparr>sink := sink w1 @ [(''handler_error'', job_id job)]\<rparr>)))
   \<and> (distinct (map job_id (jobsCollection (store mw)))
       \<and> findOne_sort (mongodb_candidate q (now_at e (reads mw))) createdAt (jobsCollection (store mw)) = Some j
       \<and> attempts j < maxAttempts j
       \<and> genId_at e (Suc (Suc (reads mw))) \<notin> log_id ` set (logsCollection (store mw)) \<longrightarrow>
      getJob mongodbAdapter (job_id j) (store (poll_cycle mongodbAdapter e None [(q, always_throws)] mw))
        = Some (j\<lparr>status := pending, lockedUntil := 0, visibleAt := now_at e (Suc (reads mw)),
                 updatedAt := now_at e (Suc (reads mw)), attempts := attempts j + 1\<rparr>)
      \<and> mset (getLogs mongodbAdapter (job_id j) (store (poll_cycle mongodbAdapter e None [(q, always_throws)] mw)))
        = mset (getLogs mongodbAdapter (job_id j) (store mw)) + {#nack_log e (Suc (Suc (reads mw))) j#}
      \<and> sink (poll_cycle mongodbAdapter e None [(q, always_throws)] mw)
        = sink mw @ [(''handler_error'', job_id j)])
   \<and> (distinct (map job_id (jobs (store dw)))
       \<and> take 1 (sort_key createdAt (filter (drizzle_available q (now_at e (reads dw))) (jobs (store dw)))) = [j]
       \<and> genId_at e (Suc (Suc (reads dw))) \<notin> log_id ` set (jobLogs (store dw)) \<longrightarrow>
      getJob drizzleAdapter (job_id j) (store (poll_cycle drizzleAdapter e None [(q, always_throws)] dw))
        = Some (j\<lparr>status := pending, lockedUntil := 0, visibleAt := now_at e (Suc (reads dw)),
                 updatedAt := now_at e (Suc (reads dw)), attempts := attempts j + 1\<rparr>)
      \<and> mset (getLogs drizzleAdapter (job_id j) (store (poll_cycle drizzleAdapter e None [(q, always_throws)] dw)))
        = mset (getLogs drizzleAdapter (job_id j) (store dw)) + {#nack_log e (Suc (Suc (reads dw))) j#}
      \<and> sink (poll_cycle drizzleAdapter e None [(q, always_throws)] dw)
        = sink dw @ [(''handler_error'', job_id j)])
   \<and> (zRangeByScore (pendingSet (store rw) q) 0 (now_at e (reads rw)) 2 = k # rest
       \<and> hGetAll_job (store rw) k = Some jd
       \<and> attempts jd < maxAttempts jd \<and> lockedUntil jd < now_at e (reads rw) \<longrightarrow>
      getJob redisAdapter k (store (poll_cycle redisAdapter e None [(q, always_throws)] rw))
        = Some (jd\<lparr>job_id := k, status := pending, lockedUntil := 0, visibleAt := now_at e (Suc (reads rw)),
                 updatedAt := now_at e (Suc (reads rw)), attempts := attempts jd + 1\<rparr>)
      \<and> getLogs redisAdapter k (store (poll_cycle redisAdapter e None [(q, always_throws)] rw))
        = getLogs redisAdapter k (store rw) @ [nack_log e (Suc (Suc (reads rw))) (jd\<lparr>job_id := k\<rparr>)]
      \<and> sink (poll_cycle redisAdapter e None [(q, always_throws)] rw)
        = sink rw @ [(''handler_error'', k)])"
proof (intro conjI impI)
  assume "run_handler ad e job (fst (handler job)) (snd (handler job)) w0 = (True, w1)"
  then show "dispatch ad e handler job w0 =
        call_logEvent ad e (job_id job) ''nack''
          (Some (stringify e (Some \<lparr>requeue = Some True, delayMs = None\<rparr>)))
          (call_nack ad e (job_id job) (Some \<lparr>requeue = Some True, delayMs = None\<rparr>)
             (w1\<lparr>sink := sink w1 @ [(''handler_error'', job_id job)]\<rparr>))"
    by (rule dispatch_when_handler_throws)
next
  let ?w = "poll_cycle mongodbAdapter e None [(q, always_throws)] mw"
  assume "distinct (map job_id (jobsCollection (store mw)))
       \<and> findOne_sort (mongodb_candidate q (now_at e (reads mw))) createdAt (jobsCollection (store mw)) = Some j
       \<and> attempts j < maxAttempts j
       \<and> genId_at e (Suc (Suc (reads mw))) \<notin> log_id ` set (logsCollection (store mw))"
  then have a: "distinct (map job_id (jobsCollection (store mw)))"
      "findOne_sort (mongodb_candidate q (now_at e (reads mw))) createdAt (jobsCollection (store mw)) = Some j"
      "attempts j < maxAttempts j"
      "genId_at e (Suc (Suc (reads mw))) \<notin> log_id ` set (logsCollection (store mw))"
    by simp_all
  note r = mongodb_poll_cycle_throwing [OF a]
  show "getJob mongodbAdapter (job_id j) (store ?w)
        = Some (j\<lparr>status := pending, lockedUntil := 0, visibleAt := now_at e (Suc (reads mw)),
                 updatedAt := now_at e (Suc (reads mw)), attempts := attempts j + 1\<rparr>)"
    using r(1) by (simp add: mongodbAdapter_def)
  show "mset (getLogs mongodbAdapter (job_id j) (store ?w))
        = mset (getLogs mongodbAdapter (job_id j) (store mw)) + {#nack_log e (Suc (Suc (reads mw))) j#}"
    using r(2) by (simp add: mongodbAdapter_def mongodb_getLogs_def nack_log_def)
  show "sink ?w = sink mw @ [(''handler_error'', job_id j)]"
    by (rule r(3))
next
  let ?w = "poll_cycle drizzleAdapter e None [(q, always_throws)] dw"
  assume "distinct (map job_id (jobs (store dw)))
       \<and> take 1 (sort_key createdAt (filter (drizzle_available q (now_at e (reads dw))) (jobs (store dw)))) = [j]
       \<and> genId_at e (Suc (Suc (reads dw))) \<notin> log_id ` set (jobLogs (store dw))"
  then have a: "distinct (map job_id (jobs (store dw)))"
      "take 1 (sort_key createdAt (filter (drizzle_available q (now_at e (reads dw))) (jobs (store dw)))) = [j]"
      "genId_at e (Suc (Suc (reads dw))) \<notin> log_id ` set (jobLogs (store dw))"
    by simp_all
  note r = drizzle_poll_cycle_throwing [OF a]
  show "getJob drizzleAdapter (job_id j) (store ?w)
        = Some (j\<lparr>status := pending, lockedUntil := 0, visibleAt := now_at e (Suc (reads dw)),
                 updatedAt := now_at e (Suc (reads dw)), attempts := attempts j + 1\<rparr>)"
    using r(1) by (simp add: drizzleAdapter_def)
  show "mset (getLogs drizzleAdapter (job_id j) (store ?w))
        = mset (getLogs drizzleAdapter (job_id j) (store dw)) + {#nack_log e (Suc (Suc (reads dw))) j#}"
    using r(2) by (simp add: drizzleAdapter_def drizzle_getLogs_def nack_log_def)
  show "sink ?w = sink dw @ [(''handler_error'', job_id j)]"
    by (rule r(3))
next
  let ?w = "poll_cycle redisAdapter e None [(q, always_throws)] rw"
  assume "zRangeByScore (pendingSet (store rw) q) 0 (now_at e (reads rw)) 2 = k # rest
       \<and> hGetAll_job (store rw) k = Some jd
       \<and> attempts jd < maxAttempts jd \<and> lockedUntil jd < now_at e (reads rw)"
  then have a: "zRangeByScore (pendingSet (store rw) q) 0 (now_at e (reads rw)) 2 = k # rest"
      "hGetAll_job (store rw) k = Some jd" "attempts jd < maxAttempts jd"
      "lockedUntil jd < now_at e (reads rw)"
    by simp_all
  note r = redis_poll_cycle_throwing [OF a]
  show "getJob redisAdapter k (store ?w)
        = Some (jd\<lparr>job_id := k, status := pending, lockedUntil := 0, visibleAt := now_at e (Suc (reads rw)),
                 updatedAt := now_at e (Suc (reads rw)), attempts := attempts jd + 1\<rparr>)"
    using r(1) by (simp add: redisAdapter_def)
  show "getLogs redisAdapter k (store ?w)
        = getLogs redisAdapter k (store rw) @ [nack_log e (Suc (Suc (reads rw))) (jd\<lparr>job_id := k\<rparr>)]"
    using r(2) by (simp add: redisAdapter_def)
  show "sink ?w = sink rw @ [(''handler_error'', k)]"
    by (rule r(3))
qed

theorem throwing_handler_is_requeued_witness:
  "dispatch mongodbAdapter clock_env always_throws job_a mongo_world =
        call_logEvent mongodbAdapter clock_env ''job_a'' ''nack'' (Some ''{opts}'')
          (call_nack mongodbAdapter clock_env ''job_a'' (Some \<lparr>requeue = Some True, delayMs = None\<rparr>)
             (mongo_world\<lparr>sink := [(''handler_error'', ''job_a'')]\<rparr>))
   \<and> getJob mongodbAdapter ''job_a'' (store (poll_cycle mongodbAdapter clock_env None [(''q'', always_throws)] mongo_world))
        = Some (job_a\<lparr>status := pending, lockedUntil := 0, visibleAt := 1004, updatedAt := 1004, attempts := 1\<rparr>)
   \<and> sink (poll_cycle mongodbAdapter clock_env None [(''q'', always_throws)] mongo_world)
        = [(''handler_error'', ''job_a'')]
   \<and> getJob drizzleAdapter ''job_a'' (store (poll_cycle drizzleAdapter clock_env None [(''q'', always_throws)] drizzle_world))
        = Some (job_a\<lparr>status := pending, lockedUntil := 0, visibleAt := 1004, updatedAt := 1004, attempts := 1\<rparr>)
   \<and> map log_event (getLogs drizzleAdapter ''job_a''
         (store (poll_cycle drizzleAdapter clock_env None [(''q'', always_throws)] drizzle_world))) = [''nack'']
   \<and> getJob redisAdapter ''job_a'' (store (poll_cycle redisAdapter clock_env None [(''q'', always_throws)] redis_world))
        = Some (job_a\<lparr>status := pending, lockedUntil := 0, visibleAt := 1004, updatedAt := 1004, attempts := 1\<rparr>)
   \<and> map log_event (getLogs redisAdapter ''job_a''
         (store (poll_cycle redisAdapter clock_env None [(''q'', always_throws)] redis_world))) = [''nack'']"
proof -
  have ja: "job_id job_a = ''job_a''" "attempts job_a = 0" "maxAttempts job_a = 3" "lockedUntil job_a = 0"
      "visibleAt job_a = 1000" "status job_a = pending" "queue job_a = ''q''" "meta job_a = Some ''{}''"
    by (simp_all add: job_a_def new_job_def meta_opts_def)
  have m: "findOne_sort (mongodb_candidate ''q'' 1003) createdAt [job_a] = Some job_a"
    by (simp add: findOne_sort_def mongodb_candidate_def ja)
  have d: "take 1 (sort_key createdAt (filter (drizzle_available ''q'' 1003) [job_a])) = [job_a]"
    by (simp add: drizzle_available_def ja)
  have r: "zRangeByScore (pendingSet (store redis_world) ''q'') 0 1003 2 = [''job_a'']"
      "hGetAll_job (store redis_world) ''job_a'' = Some job_a"
    by (simp_all add: redis_world_def redis_enqueue_def empty_redis_def zRangeByScore_def zAdd_def
        zRem_def hGetAll_job_def Let_def job_a_def [symmetric] ja)
  have l: "getLogs drizzleAdapter ''job_a'' (store drizzle_world) = []"
      "getLogs redisAdapter ''job_a'' (store redis_world) = []"
    by (simp_all add: drizzleAdapter_def drizzle_getLogs_def drizzle_world_def redisAdapter_def
        redis_getLogs_def redis_world_def redis_enqueue_def empty_redis_def Let_def
        job_a_def [symmetric] ja)
  have ev: "log_event (nack_log e n j) = ''nack''" for e n j
    by (simp add: nack_log_def)
  from throwing_handler_is_requeued [of mongodbAdapter clock_env job_a always_throws mongo_world mongo_world
      mongo_world "''q''" job_a drizzle_world redis_world "''job_a''" "[]" job_a]
  have t: "dispatch mongodbAdapter clock_env always_throws job_a mongo_world =
        call_logEvent mongodbAdapter clock_env ''job_a'' ''nack'' (Some ''{opts}'')
          (call_nack mongodbAdapter clock_env ''job_a'' (Some \<lparr>requeue = Some True, delayMs = None\<rparr>)
             (mongo_world\<lparr>sink := [(''handler_error'', ''job_a'')]\<rparr>))"
    "getJob mongodbAdapter ''job_a'' (store (poll_cycle mongodbAdapter clock_env None [(''q'', always_throws)] mongo_world))
        = Some (job_a\<lparr>status := pending, lockedUntil := 0, visibleAt := 1004, updatedAt := 1004, attempts := 1\<rparr>)"
    "sink (poll_cycle mongodbAdapter clock_env None [(''q'', always_throws)] mongo_world)
        = [(''handler_error'', ''job_a'')]"
    "getJob drizzleAdapter ''job_a'' (store (poll_cycle drizzleAdapter clock_env None [(''q'', always_throws)] drizzle_world))
        = Some (job_a\<lparr>status := pending, lockedUntil := 0, visibleAt := 1004, updatedAt := 1004, attempts := 1\<rparr>)"
    "mset (getLogs drizzleAdapter ''job_a''
         (store (poll_cycle drizzleAdapter clock_env None [(''q'', always_throws)] drizzle_world)))
       = {#nack_log clock_env 5 job_a#}"
    "getJob redisAdapter ''job_a'' (store (poll_cycle redisAdapter clock_env None [(''q'', always_throws)] redis_world))
        = Some (job_a\<lparr>status := pending, lockedUntil := 0, visibleAt := 1004, updatedAt := 1004, attempts := 1\<rparr>)"
    "getLogs redisAdapter ''job_a''
         (store (poll_cycle redisAdapter clock_env None [(''q'', always_throws)] redis_world))
       = [nack_log clock_env 5 (job_a\<lparr>job_id := ''job_a''\<rparr>)]"
    using m d r l
    by (simp_all add: always_throws_def ja clock_env_def mongo_world_def drizzle_world_def
        redis_world_def [THEN arg_cong, of reads] redis_world_def [THEN arg_cong, of sink] numeral_eq_Suc)
  from t(5) have "getLogs drizzleAdapter ''job_a''
         (store (poll_cycle drizzleAdapter clock_env None [(''q'', always_throws)] drizzle_world))
       = [nack_log clock_env 5 job_a]"
    by simp
  then have t5: "map log_event (getLogs drizzleAdapter ''job_a''
         (store (poll_cycle drizzleAdapter clock_env None [(''q'', always_throws)] drizzle_world))) = [''nack'']"
    by (simp add: ev)
  show ?thesis
    using t(1-4) t5 t(6) t(7) by (simp add: ev)
qed

section \<open>The eligibility gate at the boundary\<close>

text \<open>In the MongoDB adapter, with unique ids and a limit that covers the candidates, the
  jobs returned are exactly the jobs that pass the gate, claimed, oldest first.\<close>

lemma mongodb_dequeue_gate:
  assumes "distinct (map job_id (jobsCollection db))"
    and "length (filter (mongodb_candidate q t) (jobsCollection db)) \<le> limit_of opts"
  shows "fst (mongodb_dequeue t q opts db)
       = map (claim_job t (t + visibilityTimeoutMs_of opts))
           (sort_key createdAt
              (filter (\<lambda>d. queue d = q \<and> status d = pending \<and> visibleAt d \<le> t \<and> lockedUntil d < t
                          \<and> attempts d < maxAttempts d) (jobsCollection db)))"
proof -
  have "take (limit_of opts) (sort_key createdAt (filter (mongodb_candidate q t) (jobsCollection db)))
      = sort_key createdAt (filter (mongodb_candidate q t) (jobsCollection db))"
    using assms(2) by simp
  then show ?thesis
    using mongodb_dequeue_loop_result [OF assms(1), of "limit_of opts" q t _ "[]"]
    by (simp add: mongodb_dequeue_fst filter_sort mongodb_candidate_def conj_ac)
qed

text \<open>The Redis adapter never reads \<open>status\<close>: a pending job failed by
  \<open>nack(id, {requeue: false})\<close> stays in the pending set and is claimed by the next
  dequeue.\<close>

lemma redis_dequeue_claims_failed_job:
  "(case redis_enqueue ''job_a'' 1000 1000 ''q'' ''{}'' (Some meta_opts) empty_redis of
      Inl e \<Rightarrow> None
    | Inr (j, db1) \<Rightarrow>
        (let db2 = redis_nack 2000 ''job_a'' (Some \<lparr>requeue = Some False, delayMs = None\<rparr>) db1;
             (js, db3) = redis_dequeue 3000 ''q'' None db2
         in Some (map_option status (redis_getJob ''job_a'' db2), map (\<lambda>j. (job_id j, status j)) js)))
   = Some (Some failed, [(''job_a'', processing)])"
  by code_simp

text \<open>
  C1. A job enqueued at time 1000 without delay has \<open>visibleAt = 1000\<close>. A dequeue at the
  same time 1000 returns nothing in the Drizzle adapter, whose \<open>where\<close> clause is
  \<open>visibleAt < currentTime\<close>; the MongoDB adapter (\<open>visibleAt <= currentTime\<close>) and the
  Redis adapter (scores from 0 to \<open>currentTime\<close>; the job enqueued with \<open>{meta: {}}\<close>, which
  its enqueue needs) claim the job.
\<close>

theorem drizzle_dequeue_misses_job_visible_now:
  "(case drizzle_enqueue ''job_a'' 1000 1000 ''q'' ''{}'' None empty_drizzle of
      Inl e \<Rightarrow> None
    | Inr (j, db1) \<Rightarrow> Some (visibleAt j, map job_id (fst (drizzle_dequeue 1000 ''q'' None db1))))
     = Some (1000, [])
   \<and> (case mongodb_enqueue ''job_a'' 1000 1000 ''q'' ''{}'' None empty_mongo of
      Inl e \<Rightarrow> None
    | Inr (j, db1) \<Rightarrow> Some (visibleAt j, map job_id (fst (mongodb_dequeue 1000 ''q'' None db1))))
     = Some (1000, [''job_a''])
   \<and> (case redis_enqueue ''job_a'' 1000 1000 ''q'' ''{}'' (Some meta_opts) empty_redis of
      Inl e \<Rightarrow> None
    | Inr (j, db1) \<Rightarrow> Some (visibleAt j, map job_id (fst (redis_dequeue 1000 ''q'' None db1))))
     = Some (1000, [''job_a''])"
  by code_simp

end
